theory Spec2Isabelle
  imports Main
begin

section \<open>Data model (src/database/mongodb.ts, src/config/config.ts)\<close>

text \<open>
  \<^verbatim>\<open>VideoStatus\<close> and \<^verbatim>\<open>JobStatus\<close> are string unions in the source. Both contain
  \<^verbatim>\<open>'failed'\<close>, so the two constructors carry the record kind in their name.
\<close>

datatype VideoStatus = Uploading | Processing | Published | VideoFailed | Deleted

datatype JobStatus = Pending | Encoding | Completed | JobFailed

text \<open>
  Interfaces become records. \<^verbatim>\<open>VideoMetadata\<close> and \<^verbatim>\<open>EncodingJob\<close> share field names
  (owner, permlink, status, createdAt, updatedAt), so every field of the first is
  prefixed \<open>v_\<close> and every field of the second \<open>j_\<close>. A value \<^verbatim>\<open>T | null\<close> is an
  option, a \<^verbatim>\<open>Date\<close> is a number of milliseconds, a \<^verbatim>\<open>number\<close> that counts is a
  natural number.
\<close>

record VideoMetadata =
  v_owner :: string
  v_permlink :: string
  v_frontend_app :: string
  v_status :: VideoStatus
  v_input_cid :: "string option"
  v_manifest_cid :: "string option"
  v_thumbnail_url :: "string option"
  v_short :: bool
  v_duration :: "nat option"
  v_size :: "nat option"
  v_encodingProgress :: nat
  v_originalFilename :: "string option"
  v_createdAt :: nat
  v_updatedAt :: nat

record EncodingJob =
  j_owner :: string
  j_permlink :: string
  j_status :: JobStatus
  j_assignedWorker :: "string option"
  j_encoderJobId :: "string option"
  j_assignedAt :: "nat option"
  j_attemptCount :: nat
  j_lastError :: "string option"
  j_webhookReceivedAt :: "nat option"
  j_createdAt :: nat
  j_updatedAt :: nat

record EncoderConfig =
  name :: string
  url :: string
  apiKey :: string
  enabled :: bool

text \<open>Of \<^verbatim>\<open>Config\<close> only the fields read by the dispatcher and the webhook are kept.\<close>

record Config =
  encoders :: "EncoderConfig list"
  webhookApiKey :: string
  webhookUrl :: string

text \<open>Every value thrown in the modelled code is an \<^verbatim>\<open>Error\<close> object with a message.\<close>

datatype error = Error string

fun message :: "error \<Rightarrow> string" where
  "message (Error m) = m"

text \<open>
  A \<^verbatim>\<open>Partial<VideoMetadata>\<close> or \<^verbatim>\<open>Partial<EncodingJob>\<close> is a list of field
  assignments. The document \<^verbatim>\<open>{ status, updatedAt: new Date(), ...additionalData }\<close>
  is the list of the two assignments followed by those of \<^verbatim>\<open>additionalData\<close>; applying
  the list from left to right gives a repeated key its last value, as the object spread
  does. A field that is \<^verbatim>\<open>undefined\<close> in the document is stored as null (\<open>None\<close>).
\<close>

datatype VideoField =
    Set_v_owner string
  | Set_v_permlink string
  | Set_v_frontend_app string
  | Set_v_status VideoStatus
  | Set_v_input_cid "string option"
  | Set_v_manifest_cid "string option"
  | Set_v_thumbnail_url "string option"
  | Set_v_short bool
  | Set_v_duration "nat option"
  | Set_v_size "nat option"
  | Set_v_encodingProgress nat
  | Set_v_originalFilename "string option"
  | Set_v_createdAt nat
  | Set_v_updatedAt nat

fun set_video_field :: "VideoField \<Rightarrow> VideoMetadata \<Rightarrow> VideoMetadata" where
  "set_video_field (Set_v_owner x) v = v\<lparr>v_owner := x\<rparr>"
| "set_video_field (Set_v_permlink x) v = v\<lparr>v_permlink := x\<rparr>"
| "set_video_field (Set_v_frontend_app x) v = v\<lparr>v_frontend_app := x\<rparr>"
| "set_video_field (Set_v_status x) v = v\<lparr>v_status := x\<rparr>"
| "set_video_field (Set_v_input_cid x) v = v\<lparr>v_input_cid := x\<rparr>"
| "set_video_field (Set_v_manifest_cid x) v = v\<lparr>v_manifest_cid := x\<rparr>"
| "set_video_field (Set_v_thumbnail_url x) v = v\<lparr>v_thumbnail_url := x\<rparr>"
| "set_video_field (Set_v_short x) v = v\<lparr>v_short := x\<rparr>"
| "set_video_field (Set_v_duration x) v = v\<lparr>v_duration := x\<rparr>"
| "set_video_field (Set_v_size x) v = v\<lparr>v_size := x\<rparr>"
| "set_video_field (Set_v_encodingProgress x) v = v\<lparr>v_encodingProgress := x\<rparr>"
| "set_video_field (Set_v_originalFilename x) v = v\<lparr>v_originalFilename := x\<rparr>"
| "set_video_field (Set_v_createdAt x) v = v\<lparr>v_createdAt := x\<rparr>"
| "set_video_field (Set_v_updatedAt x) v = v\<lparr>v_updatedAt := x\<rparr>"

datatype JobField =
    Set_j_owner string
  | Set_j_permlink string
  | Set_j_status JobStatus
  | Set_j_assignedWorker "string option"
  | Set_j_encoderJobId "string option"
  | Set_j_assignedAt "nat option"
  | Set_j_attemptCount nat
  | Set_j_lastError "string option"
  | Set_j_webhookReceivedAt "nat option"
  | Set_j_createdAt nat
  | Set_j_updatedAt nat

fun set_job_field :: "JobField \<Rightarrow> EncodingJob \<Rightarrow> EncodingJob" where
  "set_job_field (Set_j_owner x) j = j\<lparr>j_owner := x\<rparr>"
| "set_job_field (Set_j_permlink x) j = j\<lparr>j_permlink := x\<rparr>"
| "set_job_field (Set_j_status x) j = j\<lparr>j_status := x\<rparr>"
| "set_job_field (Set_j_assignedWorker x) j = j\<lparr>j_assignedWorker := x\<rparr>"
| "set_job_field (Set_j_encoderJobId x) j = j\<lparr>j_encoderJobId := x\<rparr>"
| "set_job_field (Set_j_assignedAt x) j = j\<lparr>j_assignedAt := x\<rparr>"
| "set_job_field (Set_j_attemptCount x) j = j\<lparr>j_attemptCount := x\<rparr>"
| "set_job_field (Set_j_lastError x) j = j\<lparr>j_lastError := x\<rparr>"
| "set_job_field (Set_j_webhookReceivedAt x) j = j\<lparr>j_webhookReceivedAt := x\<rparr>"
| "set_job_field (Set_j_createdAt x) j = j\<lparr>j_createdAt := x\<rparr>"
| "set_job_field (Set_j_updatedAt x) j = j\<lparr>j_updatedAt := x\<rparr>"

section \<open>The record store (class Database)\<close>

text \<open>
  The state of the store: whether \<^verbatim>\<open>connect\<close> has run (it sets \<^verbatim>\<open>this.db\<close> and
  \<^verbatim>\<open>this.collection\<close> together, so one flag stands for both), the video collection and
  the \<^verbatim>\<open>embed-jobs\<close> collection, each in insertion order.
\<close>

record Database =
  connected :: bool
  videos :: "VideoMetadata list"
  jobs :: "EncodingJob list"

text \<open>
  MongoDB's \<^verbatim>\<open>updateOne(filter, update)\<close> changes the first document that matches the
  filter and nothing when no document matches (no upsert is requested anywhere).
\<close>

fun updateOne :: "('a \<Rightarrow> bool) \<Rightarrow> ('a \<Rightarrow> 'a) \<Rightarrow> 'a list \<Rightarrow> 'a list" where
  "updateOne p f [] = []"
| "updateOne p f (x # xs) = (if p x then f x # xs else x # updateOne p f xs)"

definition not_connected :: error where
  "not_connected = Error ''Database not connected''"

definition createVideoEntry :: "VideoMetadata \<Rightarrow> Database \<Rightarrow> error + Database" where
  "createVideoEntry metadata db =
     (if \<not> connected db then Inl not_connected
      else Inr (db\<lparr>videos := videos db @ [metadata]\<rparr>))"

text \<open>
  The parameter \<open>now\<close> is the value of \<^verbatim>\<open>new Date()\<close>. A handler that reads the
  clock several times (itself and through the store methods it calls) takes one
  reading \<open>now\<close> for all of them. Of the ways a store call can fail, the one the source
  raises itself is modelled: a call made before \<^verbatim>\<open>connect\<close>. The duplicate key refused
  by the unique index of \<^verbatim>\<open>createJob\<close> is the other.
\<close>

definition updateVideoStatus ::
  "string \<Rightarrow> VideoStatus \<Rightarrow> VideoField list \<Rightarrow> nat \<Rightarrow> Database \<Rightarrow> error + Database" where
  "updateVideoStatus permlink status additionalData now db =
     (if \<not> connected db then Inl not_connected
      else Inr (db\<lparr>videos :=
             updateOne (\<lambda>v. v_permlink v = permlink)
               (fold set_video_field ([Set_v_status status, Set_v_updatedAt now] @ additionalData))
               (videos db)\<rparr>))"

definition getVideo :: "string \<Rightarrow> Database \<Rightarrow> error + VideoMetadata option" where
  "getVideo permlink db =
     (if \<not> connected db then Inl not_connected
      else Inr (find (\<lambda>v. v_permlink v = permlink) (videos db)))"

text \<open>
  \<^verbatim>\<open>createJob\<close> first ensures the unique index on (owner, permlink); the insert of a
  second job with the same pair is then refused by the store. The text of that error is
  the driver's.
\<close>

definition job_key :: "EncodingJob \<Rightarrow> string \<times> string" where
  "job_key j = (j_owner j, j_permlink j)"

definition createJob :: "EncodingJob \<Rightarrow> Database \<Rightarrow> error + Database" where
  "createJob job db =
     (if \<not> connected db then Inl not_connected
      else if job_key job \<in> set (map job_key (jobs db))
        then Inl (Error ''E11000 duplicate key error'')
      else Inr (db\<lparr>jobs := jobs db @ [job]\<rparr>))"

definition getJob :: "string \<Rightarrow> string \<Rightarrow> Database \<Rightarrow> error + EncodingJob option" where
  "getJob owner permlink db =
     (if \<not> connected db then Inl not_connected
      else Inr (find (\<lambda>j. job_key j = (owner, permlink)) (jobs db)))"

text \<open>
  \<^verbatim>\<open>find({status:'pending'}).sort({createdAt:1}).limit(limit)\<close>. A limit of 0 means no
  limit in MongoDB. Documents with equal \<^verbatim>\<open>createdAt\<close> are kept in insertion order
  here; the store promises no order among them.
\<close>

definition getPendingJobs :: "nat \<Rightarrow> Database \<Rightarrow> error + EncodingJob list" where
  "getPendingJobs limit db =
     (if \<not> connected db then Inl not_connected
      else let sorted_jobs = sort_key j_createdAt (filter (\<lambda>j. j_status j = Pending) (jobs db))
           in Inr (if limit = 0 then sorted_jobs else take limit sorted_jobs))"

definition updateJobStatus ::
  "string \<Rightarrow> string \<Rightarrow> JobStatus \<Rightarrow> JobField list \<Rightarrow> nat \<Rightarrow> Database \<Rightarrow> error + Database" where
  "updateJobStatus owner permlink status additionalData now db =
     (if \<not> connected db then Inl not_connected
      else Inr (db\<lparr>jobs :=
             updateOne (\<lambda>j. job_key j = (owner, permlink))
               (fold set_job_field ([Set_j_status status, Set_j_updatedAt now] @ additionalData))
               (jobs db)\<rparr>))"

definition incrementJobAttempt :: "string \<Rightarrow> string \<Rightarrow> nat \<Rightarrow> Database \<Rightarrow> error + Database" where
  "incrementJobAttempt owner permlink now db =
     (if \<not> connected db then Inl not_connected
      else Inr (db\<lparr>jobs :=
             updateOne (\<lambda>j. job_key j = (owner, permlink))
               (\<lambda>j. j\<lparr>j_attemptCount := j_attemptCount j + 1, j_updatedAt := now\<rparr>)
               (jobs db)\<rparr>))"

section \<open>The dispatcher (class JobDispatcher)\<close>

text \<open>
  Of the dispatcher's fields only the round-robin cursor is state of the algorithm; the
  timer handle and the running flag belong to the scheduling of \<^verbatim>\<open>processJobs\<close>. The
  cursor is a JavaScript number that starts at 0 and grows by one per selection; it is
  a natural number here.
\<close>

record JobDispatcher =
  currentEncoderIndex :: nat

definition new_JobDispatcher :: JobDispatcher where
  "new_JobDispatcher = \<lparr>currentEncoderIndex = 0\<rparr>"

definition getNextEncoder :: "Config \<Rightarrow> JobDispatcher \<Rightarrow> error + (EncoderConfig \<times> JobDispatcher)" where
  "getNextEncoder cfg d =
     (let enabledEncoders = filter enabled (encoders cfg)
      in if length enabledEncoders = 0 then Inl (Error ''No enabled encoders available'')
         else Inr (enabledEncoders ! (currentEncoderIndex d mod length enabledEncoders),
                   d\<lparr>currentEncoderIndex := currentEncoderIndex d + 1\<rparr>))"


text \<open>
  The body sent to the encoder, and what \<^verbatim>\<open>fetch\<close> gives back. The encoder is outside
  the program: \<^verbatim>\<open>fetch\<close> is a parameter that maps the URL, the \<^verbatim>\<open>X-API-Key\<close> header
  and the body to a thrown error or a response; \<open>resp_json\<close> is the \<^verbatim>\<open>job_id\<close> of the
  parsed body (\<open>None\<close> when the body has none) or the error thrown while parsing.
\<close>

record EncoderRequest =
  r_owner :: string
  r_permlink :: string
  r_input_cid :: string
  r_short :: bool
  r_webhook_url :: string
  r_api_key :: string
  r_frontend_app :: string
  r_originalFilename :: "string option"

record FetchResponse =
  resp_ok :: bool
  resp_status :: nat
  resp_text :: string
  resp_json :: "error + string option"

type_synonym fetch = "string \<Rightarrow> string \<Rightarrow> EncoderRequest \<Rightarrow> error + FetchResponse"

text \<open>The decimal digits of a number, for the template literal with \<^verbatim>\<open>response.status\<close>.\<close>

definition digit :: "nat \<Rightarrow> char" where
  "digit k = ''0123456789'' ! k"

fun decimal :: "nat \<Rightarrow> string" where
  "decimal n = (if 9 < n then decimal (n div 10) @ [digit (n mod 10)] else [digit n])"

text \<open>
  \<^verbatim>\<open>dispatchJob\<close> returns the dispatcher as it is when the function returns or throws
  (the cursor may have moved before a throw) and either the thrown error or the store
  after the update; no statement before the final update writes to the store.
\<close>

definition dispatchJob ::
  "Config \<Rightarrow> fetch \<Rightarrow> nat \<Rightarrow> string \<Rightarrow> string \<Rightarrow> JobDispatcher \<times> Database
     \<Rightarrow> JobDispatcher \<times> (error + Database)" where
  "dispatchJob cfg fetch now owner permlink s =
     (case s of (d, db) \<Rightarrow>
      (case getVideo permlink db of
         Inl e \<Rightarrow> (d, Inl e)
       | Inr None \<Rightarrow> (d, Inl (Error (''Video not found: '' @ permlink)))
       | Inr (Some video) \<Rightarrow>
           (if v_input_cid video = None \<or> v_input_cid video = Some []
            then (d, Inl (Error (''Video has no input_cid: '' @ permlink)))
            else
              let ipfsGateway = ''https://ipfs.3speak.tv/ipfs'';
                  encoderRequest = \<lparr>r_owner = owner, r_permlink = permlink,
                    r_input_cid = ipfsGateway @ ''/'' @ the (v_input_cid video),
                    r_short = v_short video, r_webhook_url = webhookUrl cfg,
                    r_api_key = webhookApiKey cfg, r_frontend_app = v_frontend_app video,
                    r_originalFilename = v_originalFilename video\<rparr>
              in (case getNextEncoder cfg d of
                    Inl e \<Rightarrow> (d, Inl e)
                  | Inr (encoder, d') \<Rightarrow>
                      (case fetch (url encoder @ ''/encode'') (apiKey encoder) encoderRequest of
                         Inl e \<Rightarrow> (d', Inl e)
                       | Inr response \<Rightarrow>
                           if \<not> resp_ok response
                           then (d', Inl (Error (''Encoder API error: ''
                                   @ decimal (resp_status response) @ '' - ''
                                   @ resp_text response)))
                           else (case resp_json response of
                                   Inl e \<Rightarrow> (d', Inl e)
                                 | Inr job_id \<Rightarrow>
                                     (d', updateJobStatus owner permlink Encoding
                                            [Set_j_encoderJobId job_id,
                                             Set_j_assignedWorker (Some (name encoder)),
                                             Set_j_assignedAt (Some now)] now db)))))))"

text \<open>
  The \<^verbatim>\<open>catch\<close> block of the loop in \<^verbatim>\<open>processJobs\<close>. \<open>job\<close> is the document as it was
  fetched by \<^verbatim>\<open>getPendingJobs\<close>, so \<^verbatim>\<open>job.attemptCount\<close> is the count before the
  increment. A store call that throws inside the block leaves the block; the result is
  then the error together with the store as written so far.
\<close>

definition handleDispatchError ::
  "nat \<Rightarrow> EncodingJob \<Rightarrow> error \<Rightarrow> Database \<Rightarrow> error option \<times> Database" where
  "handleDispatchError now job err db =
     (case incrementJobAttempt (j_owner job) (j_permlink job) now db of
        Inl x \<Rightarrow> (Some x, db)
      | Inr db1 \<Rightarrow>
     (case updateJobStatus (j_owner job) (j_permlink job) Pending
             [Set_j_lastError (Some (message err))] now db1 of
        Inl x \<Rightarrow> (Some x, db1)
      | Inr db2 \<Rightarrow>
     (if j_attemptCount job \<ge> 3 then
        (case updateJobStatus (j_owner job) (j_permlink job) JobFailed
                [Set_j_lastError (Some (''Max attempts exceeded: '' @ message err))] now db2 of
           Inl x \<Rightarrow> (Some x, db2)
         | Inr db3 \<Rightarrow>
        (case updateVideoStatus (j_permlink job) VideoFailed [] now db3 of
           Inl x \<Rightarrow> (Some x, db3)
         | Inr db4 \<Rightarrow> (None, db4)))
      else (None, db2))))"

text \<open>One iteration of the loop: the \<^verbatim>\<open>try\<close> with its \<^verbatim>\<open>catch\<close>.\<close>

definition processJob ::
  "Config \<Rightarrow> fetch \<Rightarrow> nat \<Rightarrow> EncodingJob \<Rightarrow> JobDispatcher \<times> Database
     \<Rightarrow> error option \<times> JobDispatcher \<times> Database" where
  "processJob cfg fetch now job s =
     (case dispatchJob cfg fetch now (j_owner job) (j_permlink job) s of
        (d', Inr db') \<Rightarrow> (None, d', db')
      | (d', Inl err) \<Rightarrow>
          (case handleDispatchError now job err (snd s) of (x, db') \<Rightarrow> (x, d', db')))"

text \<open>
  The loop over the fetched jobs. An error that leaves an iteration reaches the outer
  \<^verbatim>\<open>catch\<close> of \<^verbatim>\<open>processJobs\<close>, which logs it: the remaining jobs are not processed.
\<close>

fun processLoop ::
  "Config \<Rightarrow> fetch \<Rightarrow> nat \<Rightarrow> EncodingJob list \<Rightarrow> JobDispatcher \<times> Database
     \<Rightarrow> JobDispatcher \<times> Database" where
  "processLoop cfg fetch now [] s = s"
| "processLoop cfg fetch now (job # rest) s =
     (case processJob cfg fetch now job s of
        (Some x, s') \<Rightarrow> s'
      | (None, s') \<Rightarrow> processLoop cfg fetch now rest s')"

definition processJobs ::
  "Config \<Rightarrow> fetch \<Rightarrow> nat \<Rightarrow> JobDispatcher \<times> Database \<Rightarrow> JobDispatcher \<times> Database" where
  "processJobs cfg fetch now s =
     (case getPendingJobs 5 (snd s) of
        Inl e \<Rightarrow> s
      | Inr pendingJobs \<Rightarrow>
          if length pendingJobs = 0 then s
          else processLoop cfg fetch now pendingJobs s)"

section \<open>The HTTP handlers and the upload hook (the server's main file)\<close>

text \<open>A JavaScript string is falsy when it is absent or empty.\<close>

definition truthy :: "string option \<Rightarrow> bool" where
  "truthy x = (x \<noteq> None \<and> x \<noteq> Some [])"

datatype jval = JBool bool | JStr string

record Response =
  statusCode :: nat
  json :: "(string \<times> jval) list"

text \<open>
  The body of the webhook call after \<^verbatim>\<open>express.json()\<close>, with the fields the handler
  uses, and the request with its \<^verbatim>\<open>x-api-key\<close> header (\<open>None\<close> when the header is absent).
\<close>

record WebhookBody =
  w_owner :: string
  w_permlink :: string
  w_status :: string
  w_manifest_cid :: "string option"
  w_error :: "string option"

record WebhookRequest =
  x_api_key :: "string option"
  body :: WebhookBody

definition internal_server_error :: Response where
  "internal_server_error = \<lparr>statusCode = 500, json = [(''error'', JStr ''Internal server error'')]\<rparr>"

text \<open>
  \<^verbatim>\<open>app.post('/webhook', ...)\<close>. The response and the store after the call; a store call
  that throws is caught by the handler's \<^verbatim>\<open>catch\<close>, which answers 500.
\<close>

definition webhook :: "Config \<Rightarrow> WebhookRequest \<Rightarrow> nat \<Rightarrow> Database \<Rightarrow> Response \<times> Database" where
  "webhook cfg req now db =
     (if x_api_key req \<noteq> Some (webhookApiKey cfg)
      then (\<lparr>statusCode = 401, json = [(''error'', JStr ''Unauthorized'')]\<rparr>, db)
      else
        let owner = w_owner (body req); permlink = w_permlink (body req);
            status = w_status (body req); manifest_cid = w_manifest_cid (body req);
            encoderError = w_error (body req)
        in if status = ''complete'' then
             (case updateVideoStatus permlink Published
                     [Set_v_manifest_cid manifest_cid, Set_v_encodingProgress 100] now db of
                Inl e \<Rightarrow> (internal_server_error, db)
              | Inr db1 \<Rightarrow>
             (case updateJobStatus owner permlink Completed
                     [Set_j_webhookReceivedAt (Some now)] now db1 of
                Inl e \<Rightarrow> (internal_server_error, db1)
              | Inr db2 \<Rightarrow>
                  (\<lparr>statusCode = 200,
                    json = [(''success'', JBool True),
                            (''message'', JStr ''Webhook processed successfully'')]\<rparr>, db2)))
           else if status = ''failed'' then
             (case updateVideoStatus permlink VideoFailed [Set_v_encodingProgress 0] now db of
                Inl e \<Rightarrow> (internal_server_error, db)
              | Inr db1 \<Rightarrow>
             (case updateJobStatus owner permlink JobFailed
                     [Set_j_webhookReceivedAt (Some now),
                      Set_j_lastError (Some (if truthy encoderError then the encoderError
                                             else ''Encoding failed''))] now db1 of
                Inl e \<Rightarrow> (internal_server_error, db1)
              | Inr db2 \<Rightarrow>
                  (\<lparr>statusCode = 200,
                    json = [(''success'', JBool True),
                            (''message'', JStr ''Webhook processed (failure recorded)'')]\<rparr>, db2)))
           else (\<lparr>statusCode = 400, json = [(''error'', JStr ''Unknown status'')]\<rparr>, db))"

text \<open>
  \<^verbatim>\<open>app.post('/video/:permlink/thumbnail', requireApiKey, ...)\<close>: the handler that runs
  once the API-key middleware has let the request through. Its arguments are the
  \<^verbatim>\<open>permlink\<close> of the path and the \<^verbatim>\<open>thumbnail_url\<close> of the body.
\<close>

definition post_thumbnail :: "string \<Rightarrow> string option \<Rightarrow> nat \<Rightarrow> Database \<Rightarrow> Response \<times> Database" where
  "post_thumbnail permlink thumbnail_url now db =
     (if \<not> truthy thumbnail_url
      then (\<lparr>statusCode = 400, json = [(''error'', JStr ''thumbnail_url is required'')]\<rparr>, db)
      else
        (case getVideo permlink db of
           Inl e \<Rightarrow> (internal_server_error, db)
         | Inr None \<Rightarrow> (\<lparr>statusCode = 404, json = [(''error'', JStr ''Video not found'')]\<rparr>, db)
         | Inr (Some video) \<Rightarrow>
             (case updateVideoStatus permlink (v_status video)
                     [Set_v_thumbnail_url thumbnail_url] now db of
                Inl e \<Rightarrow> (internal_server_error, db)
              | Inr db1 \<Rightarrow>
                  (\<lparr>statusCode = 200,
                    json = [(''success'', JBool True),
                            (''thumbnail_url'', JStr (the thumbnail_url))]\<rparr>, db1))))"

text \<open>
  The finished upload as \<^verbatim>\<open>onUploadFinish\<close> reads it: \<^verbatim>\<open>metadata.permlink\<close>,
  \<^verbatim>\<open>metadata.owner\<close>, the path of \<^verbatim>\<open>upload.storage\<close> and \<^verbatim>\<open>upload.size\<close>. \<^verbatim>\<open>pinFile\<close>
  talks to IPFS and is a parameter: the content identifier, or the error it throws.
\<close>

record Upload =
  u_permlink :: "string option"
  u_owner :: "string option"
  u_storage :: "string option"
  u_size :: "nat option"

text \<open>
  The \<^verbatim>\<open>catch\<close> block of \<^verbatim>\<open>onUploadFinish\<close>; an error thrown inside it leaves the hook.
\<close>

definition uploadFinishFailed :: "string \<Rightarrow> nat \<Rightarrow> Database \<Rightarrow> error option \<times> Database" where
  "uploadFinishFailed permlink now db =
     (case updateVideoStatus permlink VideoFailed [Set_v_encodingProgress 0] now db of
        Inl e \<Rightarrow> (Some e, db)
      | Inr db' \<Rightarrow> (None, db'))"

definition onUploadFinish ::
  "(string \<Rightarrow> error + string) \<Rightarrow> Upload \<Rightarrow> nat \<Rightarrow> Database \<Rightarrow> error option \<times> Database" where
  "onUploadFinish pinFile upload now db =
     (if truthy (u_permlink upload) \<and> truthy (u_owner upload) \<and> u_storage upload \<noteq> None then
        let permlink = the (u_permlink upload); owner = the (u_owner upload);
            filePath = the (u_storage upload)
        in (case pinFile filePath of
              Inl e \<Rightarrow> uploadFinishFailed permlink now db
            | Inr input_cid \<Rightarrow>
           (case updateVideoStatus permlink Processing
                   [Set_v_size (if u_size upload = Some 0 then None else u_size upload),
                    Set_v_input_cid (Some input_cid),
                    Set_v_encodingProgress 0] now db of
              Inl e \<Rightarrow> uploadFinishFailed permlink now db
            | Inr db1 \<Rightarrow>
           (case createJob \<lparr>j_owner = owner, j_permlink = permlink, j_status = Pending,
                   j_assignedWorker = None, j_encoderJobId = None, j_assignedAt = None,
                   j_attemptCount = 0, j_lastError = None, j_webhookReceivedAt = None,
                   j_createdAt = now, j_updatedAt = now\<rparr> db1 of
              Inl e \<Rightarrow> uploadFinishFailed permlink now db1
            | Inr db2 \<Rightarrow> (None, db2))))
      else (None, db))"

section \<open>Concrete inputs\<close>

text \<open>
  The records of scenario A of the specification after the upload has finished: the
  video of owner alice with permlink ab12cd34, pinned as Qm123, and its pending job.
\<close>

definition scenario_video :: VideoMetadata where
  "scenario_video = \<lparr>v_owner = ''alice'', v_permlink = ''ab12cd34'', v_frontend_app = ''demo'',
     v_status = Processing, v_input_cid = Some ''Qm123'', v_manifest_cid = None,
     v_thumbnail_url = None, v_short = False, v_duration = None, v_size = Some 1000,
     v_encodingProgress = 0, v_originalFilename = None, v_createdAt = 1, v_updatedAt = 2\<rparr>"

definition scenario_job :: EncodingJob where
  "scenario_job = \<lparr>j_owner = ''alice'', j_permlink = ''ab12cd34'', j_status = Pending,
     j_assignedWorker = None, j_encoderJobId = None, j_assignedAt = None, j_attemptCount = 0,
     j_lastError = None, j_webhookReceivedAt = None, j_createdAt = 2, j_updatedAt = 2\<rparr>"

definition scenario_db :: Database where
  "scenario_db = \<lparr>connected = True, videos = [scenario_video], jobs = [scenario_job]\<rparr>"

definition worker :: "string \<Rightarrow> bool \<Rightarrow> EncoderConfig" where
  "worker n en = \<lparr>name = n, url = ''https://'' @ n @ ''.example.com'', apiKey = ''key'', enabled = en\<rparr>"

definition scenario_cfg :: "EncoderConfig list \<Rightarrow> Config" where
  "scenario_cfg es = \<lparr>encoders = es, webhookApiKey = ''secret'',
     webhookUrl = ''https://embed.example.com/webhook''\<rparr>"

text \<open>An encoder that cannot be reached: \<^verbatim>\<open>fetch\<close> throws.\<close>

definition fetch_down :: fetch where
  "fetch_down u k r = Inl (Error ''fetch failed'')"

text \<open>The upload of scenario A as the hook sees it, and a pin that succeeds.\<close>

definition scenario_upload :: Upload where
  "scenario_upload = \<lparr>u_permlink = Some ''ab12cd34'', u_owner = Some ''alice'',
     u_storage = Some ''/uploads/f1'', u_size = Some 1000\<rparr>"

definition pin_ok :: "string \<Rightarrow> error + string" where
  "pin_ok filePath = Inr ''Qm123''"

text \<open>Stores in which the video is already published, is soft-deleted, or does not exist.\<close>

definition published_db :: Database where
  "published_db = \<lparr>connected = True,
     videos = [scenario_video\<lparr>v_status := Published, v_manifest_cid := Some ''Qm456'',
                 v_encodingProgress := 100\<rparr>], jobs = []\<rparr>"

definition deleted_db :: Database where
  "deleted_db = \<lparr>connected = True, videos = [scenario_video\<lparr>v_status := Deleted\<rparr>], jobs = []\<rparr>"

definition empty_db :: Database where
  "empty_db = \<lparr>connected = True, videos = [], jobs = []\<rparr>"

text \<open>The webhook report of scenario A, with the right credential.\<close>

definition complete_report :: WebhookRequest where
  "complete_report = \<lparr>x_api_key = Some ''secret'',
     body = \<lparr>w_owner = ''alice'', w_permlink = ''ab12cd34'', w_status = ''complete'',
              w_manifest_cid = Some ''Qm456'', w_error = None\<rparr>\<rparr>"


text \<open>
  Scenario B of the specification: the only configured encoder is disabled. The job and
  the store after \<open>k\<close> failed polls, the last at time \<open>t\<close>, and the store after the
  fourth poll. \<open>one_worker\<close> has an enabled encoder instead.
\<close>

definition idle_cfg :: Config where
  "idle_cfg = scenario_cfg [worker ''w1'' False]"

definition one_worker :: Config where
  "one_worker = scenario_cfg [worker ''w1'' True]"

definition retried_job :: "nat \<Rightarrow> nat \<Rightarrow> EncodingJob" where
  "retried_job k t = scenario_job\<lparr>j_attemptCount := k,
     j_lastError := Some ''No enabled encoders available'', j_updatedAt := t\<rparr>"

definition retried_db :: "nat \<Rightarrow> nat \<Rightarrow> Database" where
  "retried_db k t = \<lparr>connected = True, videos = [scenario_video], jobs = [retried_job k t]\<rparr>"

definition given_up_db :: Database where
  "given_up_db = \<lparr>connected = True,
     videos = [scenario_video\<lparr>v_status := VideoFailed, v_updatedAt := 120\<rparr>],
     jobs = [scenario_job\<lparr>j_status := JobFailed, j_attemptCount := 4,
               j_lastError := Some ''Max attempts exceeded: No enabled encoders available'',
               j_updatedAt := 120\<rparr>]\<rparr>"

text \<open>
  A \<^verbatim>\<open>complete\<close> report for the right permlink under another owner, a \<^verbatim>\<open>failed\<close> report,
  and the store the first report leaves after three failed polls: the video is
  published while the job of alice is still pending.
\<close>

definition stray_report :: WebhookRequest where
  "stray_report = \<lparr>x_api_key = Some ''secret'',
     body = \<lparr>w_owner = ''bob'', w_permlink = ''ab12cd34'', w_status = ''complete'',
              w_manifest_cid = Some ''Qm456'', w_error = None\<rparr>\<rparr>"

definition failed_report :: WebhookRequest where
  "failed_report = \<lparr>x_api_key = Some ''secret'',
     body = \<lparr>w_owner = ''alice'', w_permlink = ''ab12cd34'', w_status = ''failed'',
              w_manifest_cid = None, w_error = Some ''encoder crashed''\<rparr>\<rparr>"

definition misreported_db :: Database where
  "misreported_db = snd (webhook idle_cfg stray_report 100 (retried_db 3 90))"

section \<open>Facts about the store\<close>

lemma updateOne_none: "\<forall>x\<in>set xs. \<not> p x \<Longrightarrow> updateOne p f xs = xs"
  by (induction xs) auto

lemma find_updateOne:
  assumes "\<And>x. key (f x) = key x"
  shows "find (\<lambda>x. key x = k) (updateOne (\<lambda>x. key x = k') f xs) =
           (if k = k' then map_option f (find (\<lambda>x. key x = k) xs)
            else find (\<lambda>x. key x = k) xs)"
  using assms by (induction xs) auto

lemma updateOne_twice:
  assumes "\<And>x. p x \<Longrightarrow> p (g x)" and "\<And>x. f (g x) = h (g x)"
  shows "updateOne p f (updateOne p g xs) = updateOne p h (updateOne p g xs)"
  using assms by (induction xs) auto

lemma map_key_updateOne:
  assumes "\<And>x. key (f x) = key x"
  shows "map key (updateOne p f xs) = map key xs"
  using assms by (induction xs) auto

lemma updateOne_first:
  "find p xs = Some v \<Longrightarrow> f v = g v \<Longrightarrow> updateOne p f xs = updateOne p g xs"
  by (induction xs) (auto split: if_splits)

lemma updateVideoStatus_unmatched:
  assumes "connected db" and "find (\<lambda>v. v_permlink v = permlink) (videos db) = None"
  shows "updateVideoStatus permlink status additionalData now db = Inr db"
proof -
  from assms(2) have "\<forall>v\<in>set (videos db). \<not> v_permlink v = permlink"
    by (simp add: find_None_iff)
  then have "updateOne (\<lambda>v. v_permlink v = permlink)
               (fold set_video_field ([Set_v_status status, Set_v_updatedAt now] @ additionalData))
               (videos db) = videos db"
    by (rule updateOne_none)
  with assms(1) show ?thesis by (simp add: updateVideoStatus_def)
qed

lemma getVideo_updateVideoStatus:
  assumes "connected db" and "\<And>x. v_permlink (fold set_video_field extra x) = v_permlink x"
  shows "\<exists>db'. updateVideoStatus p st extra now db = Inr db' \<and> connected db' \<and> jobs db' = jobs db \<and>
           videos db' = updateOne (\<lambda>v. v_permlink v = p)
               (fold set_video_field ([Set_v_status st, Set_v_updatedAt now] @ extra)) (videos db) \<and>
           getVideo q db' = Inr (if q = p
              then map_option (fold set_video_field ([Set_v_status st, Set_v_updatedAt now] @ extra))
                     (find (\<lambda>v. v_permlink v = q) (videos db))
              else find (\<lambda>v. v_permlink v = q) (videos db))"
proof -
  define f where "f = fold set_video_field ([Set_v_status st, Set_v_updatedAt now] @ extra)"
  have k: "\<And>x. v_permlink (f x) = v_permlink x"
    using assms(2) by (simp add: f_def)
  have u: "updateVideoStatus p st extra now db =
             Inr (db\<lparr>videos := updateOne (\<lambda>v. v_permlink v = p) f (videos db)\<rparr>)"
    using assms(1) unfolding updateVideoStatus_def f_def by simp
  have "getVideo q (db\<lparr>videos := updateOne (\<lambda>v. v_permlink v = p) f (videos db)\<rparr>) =
          Inr (if q = p then map_option f (find (\<lambda>v. v_permlink v = q) (videos db))
               else find (\<lambda>v. v_permlink v = q) (videos db))"
    using assms(1) find_updateOne [where key = v_permlink and f = f, OF k]
    by (simp add: getVideo_def)
  with u assms(1) show ?thesis
    unfolding f_def by simp
qed

lemma getJob_updateJobStatus:
  assumes "connected db" and "\<And>x. job_key (fold set_job_field extra x) = job_key x"
  shows "\<exists>db'. updateJobStatus ow p st extra now db = Inr db' \<and> connected db' \<and> videos db' = videos db \<and>
           jobs db' = updateOne (\<lambda>j. job_key j = (ow, p))
               (fold set_job_field ([Set_j_status st, Set_j_updatedAt now] @ extra)) (jobs db) \<and>
           getJob ow' q db' = Inr (if (ow', q) = (ow, p)
              then map_option (fold set_job_field ([Set_j_status st, Set_j_updatedAt now] @ extra))
                     (find (\<lambda>j. job_key j = (ow', q)) (jobs db))
              else find (\<lambda>j. job_key j = (ow', q)) (jobs db))"
proof -
  define f where "f = fold set_job_field ([Set_j_status st, Set_j_updatedAt now] @ extra)"
  have k: "\<And>x. job_key (f x) = job_key x"
    using assms(2) by (simp add: f_def job_key_def)
  have u: "updateJobStatus ow p st extra now db =
             Inr (db\<lparr>jobs := updateOne (\<lambda>j. job_key j = (ow, p)) f (jobs db)\<rparr>)"
    using assms(1) unfolding updateJobStatus_def f_def by simp
  have "getJob ow' q (db\<lparr>jobs := updateOne (\<lambda>j. job_key j = (ow, p)) f (jobs db)\<rparr>) =
          Inr (if (ow', q) = (ow, p) then map_option f (find (\<lambda>j. job_key j = (ow', q)) (jobs db))
               else find (\<lambda>j. job_key j = (ow', q)) (jobs db))"
    using assms(1) find_updateOne [where key = job_key and f = f and k = "(ow', q)" and k' = "(ow, p)", OF k]
    by (simp add: getJob_def)
  with u assms(1) show ?thesis
    unfolding f_def by simp
qed

section \<open>Video status updates\<close>

text \<open>
  Claim C10. A status update of a permlink that no video has succeeds and changes
  nothing: whatever the new status and the additional fields, the call returns
  normally with the store it was given. This covers every caller of
  \<^verbatim>\<open>updateVideoStatus\<close>: the upload hook, the webhook and the dispatcher.
\<close>

theorem updateVideoStatus_missing_video_noop:
  assumes "getVideo permlink db = Inr None"
  shows "updateVideoStatus permlink status additionalData now db = Inr db"
proof -
  from assms have "connected db"
    and "find (\<lambda>v. v_permlink v = permlink) (videos db) = None"
    by (auto simp: getVideo_def split: if_splits)
  then show ?thesis by (rule updateVideoStatus_unmatched)
qed

theorem updateVideoStatus_missing_video_noop_witness:
  "getVideo ''zz99zz99'' scenario_db = Inr None \<and>
   updateVideoStatus ''zz99zz99'' Published
     [Set_v_manifest_cid (Some ''Qm456''), Set_v_encodingProgress 100] 9 scenario_db
     = Inr scenario_db"
proof -
  have h: "getVideo ''zz99zz99'' scenario_db = Inr None"
    by (simp add: getVideo_def scenario_db_def scenario_video_def)
  show ?thesis
    using h updateVideoStatus_missing_video_noop [OF h] by simp
qed

text \<open>
  The webhook and the upload hook mark a video failed by
  \<^verbatim>\<open>updateVideoStatus(permlink, 'failed', { encodingProgress: 0 })\<close>. Made twice on a
  connected store, both calls return normally, the second changes nothing but
  \<^verbatim>\<open>updatedAt\<close> of the video with that permlink, and a video that had the permlink has
  status failed and progress 0 after each call.
\<close>

lemma markFailed_idempotent:
  assumes "connected db"
  shows "\<exists>db1 db2.
          updateVideoStatus p VideoFailed [Set_v_encodingProgress 0] t1 db = Inr db1 \<and>
          updateVideoStatus p VideoFailed [Set_v_encodingProgress 0] t2 db1 = Inr db2 \<and>
          db2 = db1\<lparr>videos := updateOne (\<lambda>v. v_permlink v = p) (\<lambda>v. v\<lparr>v_updatedAt := t2\<rparr>) (videos db1)\<rparr> \<and>
          (\<forall>v. getVideo p db = Inr (Some v) \<longrightarrow>
             getVideo p db1 = Inr (Some (v\<lparr>v_status := VideoFailed, v_encodingProgress := 0, v_updatedAt := t1\<rparr>)) \<and>
             getVideo p db2 = Inr (Some (v\<lparr>v_status := VideoFailed, v_encodingProgress := 0, v_updatedAt := t2\<rparr>)))"
proof -
  let ?g = "fold set_video_field ([Set_v_status VideoFailed, Set_v_updatedAt t1] @ [Set_v_encodingProgress 0])"
  let ?f = "fold set_video_field ([Set_v_status VideoFailed, Set_v_updatedAt t2] @ [Set_v_encodingProgress 0])"
  let ?P = "\<lambda>v. v_permlink v = p"
  obtain db1 where u1: "updateVideoStatus p VideoFailed [Set_v_encodingProgress 0] t1 db = Inr db1"
    and c1: "connected db1"
    and vs1: "videos db1 = updateOne ?P ?g (videos db)"
    and g1: "getVideo p db1 = Inr (map_option ?g (find ?P (videos db)))"
    using getVideo_updateVideoStatus [OF assms, of "[Set_v_encodingProgress 0]" p VideoFailed t1 p]
    by auto
  obtain db2 where u2: "updateVideoStatus p VideoFailed [Set_v_encodingProgress 0] t2 db1 = Inr db2"
    and vs2: "videos db2 = updateOne ?P ?f (videos db1)"
    and g2: "getVideo p db2 = Inr (map_option ?f (find ?P (videos db1)))"
    using getVideo_updateVideoStatus [OF c1, of "[Set_v_encodingProgress 0]" p VideoFailed t2 p]
    by auto
  have "updateOne ?P ?f (updateOne ?P ?g (videos db)) =
        updateOne ?P (\<lambda>v. v\<lparr>v_updatedAt := t2\<rparr>) (updateOne ?P ?g (videos db))"
    by (rule updateOne_twice) simp_all
  then have vs: "videos db2 = updateOne ?P (\<lambda>v. v\<lparr>v_updatedAt := t2\<rparr>) (videos db1)"
    using vs1 vs2 by simp
  have eq: "db2 = db1\<lparr>videos := updateOne ?P (\<lambda>v. v\<lparr>v_updatedAt := t2\<rparr>) (videos db1)\<rparr>"
    using u2 c1 vs [symmetric] vs2 by (simp add: updateVideoStatus_def)
  have f1: "find ?P (videos db1) = map_option ?g (find ?P (videos db))"
    using g1 c1 by (simp add: getVideo_def)
  have gets: "\<forall>v. getVideo p db = Inr (Some v) \<longrightarrow>
             getVideo p db1 = Inr (Some (v\<lparr>v_status := VideoFailed, v_encodingProgress := 0, v_updatedAt := t1\<rparr>)) \<and>
             getVideo p db2 = Inr (Some (v\<lparr>v_status := VideoFailed, v_encodingProgress := 0, v_updatedAt := t2\<rparr>))"
    using assms g1 g2 f1 by (auto simp: getVideo_def)
  from u1 u2 eq gets show ?thesis by blast
qed

lemma markFailed_idempotent_scenario:
  "connected scenario_db \<and>
   getVideo ''ab12cd34'' scenario_db = Inr (Some scenario_video) \<and>
   (\<exists>db1 db2.
      updateVideoStatus ''ab12cd34'' VideoFailed [Set_v_encodingProgress 0] 5 scenario_db = Inr db1 \<and>
      updateVideoStatus ''ab12cd34'' VideoFailed [Set_v_encodingProgress 0] 9 db1 = Inr db2 \<and>
      getVideo ''ab12cd34'' db2 =
        Inr (Some (scenario_video\<lparr>v_status := VideoFailed, v_encodingProgress := 0,
                     v_updatedAt := 9\<rparr>)))"
proof -
  have c: "connected scenario_db"
    by (simp add: scenario_db_def)
  have g: "getVideo ''ab12cd34'' scenario_db = Inr (Some scenario_video)"
    by (simp add: getVideo_def scenario_db_def scenario_video_def)
  from markFailed_idempotent [OF c, where p = "''ab12cd34''" and ?t1.0 = 5 and ?t2.0 = 9] g c
  show ?thesis by blast
qed

text \<open>
  The dispatcher's call \<^verbatim>\<open>updateVideoStatus(job.permlink, 'failed')\<close> passes no
  additional data. It is idempotent in the same way, and leaves the progress as it is.
\<close>

lemma cascade_failed_idempotent:
  assumes "connected db"
  shows "\<exists>db1 db2.
          updateVideoStatus p VideoFailed [] t1 db = Inr db1 \<and>
          updateVideoStatus p VideoFailed [] t2 db1 = Inr db2 \<and>
          db2 = db1\<lparr>videos := updateOne (\<lambda>v. v_permlink v = p) (\<lambda>v. v\<lparr>v_updatedAt := t2\<rparr>) (videos db1)\<rparr> \<and>
          (\<forall>v. getVideo p db = Inr (Some v) \<longrightarrow>
             getVideo p db2 = Inr (Some (v\<lparr>v_status := VideoFailed, v_updatedAt := t2\<rparr>)))"
proof -
  let ?g = "fold set_video_field ([Set_v_status VideoFailed, Set_v_updatedAt t1] @ [])"
  let ?f = "fold set_video_field ([Set_v_status VideoFailed, Set_v_updatedAt t2] @ [])"
  let ?P = "\<lambda>v. v_permlink v = p"
  obtain db1 where u1: "updateVideoStatus p VideoFailed [] t1 db = Inr db1"
    and c1: "connected db1"
    and vs1: "videos db1 = updateOne ?P ?g (videos db)"
    and g1: "getVideo p db1 = Inr (map_option ?g (find ?P (videos db)))"
    using getVideo_updateVideoStatus [OF assms, of "[]" p VideoFailed t1 p]
    by auto
  obtain db2 where u2: "updateVideoStatus p VideoFailed [] t2 db1 = Inr db2"
    and vs2: "videos db2 = updateOne ?P ?f (videos db1)"
    and g2: "getVideo p db2 = Inr (map_option ?f (find ?P (videos db1)))"
    using getVideo_updateVideoStatus [OF c1, of "[]" p VideoFailed t2 p]
    by auto
  have "updateOne ?P ?f (updateOne ?P ?g (videos db)) =
        updateOne ?P (\<lambda>v. v\<lparr>v_updatedAt := t2\<rparr>) (updateOne ?P ?g (videos db))"
    by (rule updateOne_twice) simp_all
  then have vs: "videos db2 = updateOne ?P (\<lambda>v. v\<lparr>v_updatedAt := t2\<rparr>) (videos db1)"
    using vs1 vs2 by simp
  have eq: "db2 = db1\<lparr>videos := updateOne ?P (\<lambda>v. v\<lparr>v_updatedAt := t2\<rparr>) (videos db1)\<rparr>"
    using u2 c1 vs [symmetric] vs2 by (simp add: updateVideoStatus_def)
  have f1: "find ?P (videos db1) = map_option ?g (find ?P (videos db))"
    using g1 c1 by (simp add: getVideo_def)
  have gets: "\<forall>v. getVideo p db = Inr (Some v) \<longrightarrow>
             getVideo p db2 = Inr (Some (v\<lparr>v_status := VideoFailed, v_updatedAt := t2\<rparr>))"
    using assms g2 f1 by (auto simp: getVideo_def)
  from u1 u2 eq gets show ?thesis by blast
qed

section \<open>The webhook\<close>

text \<open>
  Claim C6. A webhook call whose \<^verbatim>\<open>x-api-key\<close> header is absent or differs from the
  configured secret is answered 401 Unauthorized, whatever its body, and the store is
  returned as it was: no job and no video is touched.
\<close>

theorem webhook_rejects_bad_credential:
  assumes "x_api_key req \<noteq> Some (webhookApiKey cfg)"
  shows "webhook cfg req now db =
           (\<lparr>statusCode = 401, json = [(''error'', JStr ''Unauthorized'')]\<rparr>, db)"
  using assms by (simp add: webhook_def)

theorem webhook_rejects_bad_credential_witness:
  "x_api_key \<lparr>x_api_key = Some ''guess'', body = \<lparr>w_owner = ''alice'', w_permlink = ''ab12cd34'',
       w_status = ''complete'', w_manifest_cid = Some ''Qm456'', w_error = None\<rparr>\<rparr>
     \<noteq> Some (webhookApiKey (scenario_cfg [])) \<and>
   webhook (scenario_cfg [])
     \<lparr>x_api_key = Some ''guess'', body = \<lparr>w_owner = ''alice'', w_permlink = ''ab12cd34'',
       w_status = ''complete'', w_manifest_cid = Some ''Qm456'', w_error = None\<rparr>\<rparr> 9 scenario_db
     = (\<lparr>statusCode = 401, json = [(''error'', JStr ''Unauthorized'')]\<rparr>, scenario_db)"
proof -
  have h: "x_api_key \<lparr>x_api_key = Some ''guess'', body = \<lparr>w_owner = ''alice'',
       w_permlink = ''ab12cd34'', w_status = ''complete'', w_manifest_cid = Some ''Qm456'',
       w_error = None\<rparr>\<rparr> \<noteq> Some (webhookApiKey (scenario_cfg []))"
    by (simp add: scenario_cfg_def)
  show ?thesis
    using h webhook_rejects_bad_credential [OF h] by simp
qed

text \<open>
  Claim C5. A webhook call with the right credential and status \<^verbatim>\<open>complete\<close>, for a
  permlink that has a video and an (owner, permlink) that has a job, is answered 200;
  afterwards the video is published with progress 100 and the reported
  \<^verbatim>\<open>manifest_cid\<close>, and the job is completed with \<^verbatim>\<open>webhookReceivedAt\<close> the time of the
  call. Nothing else of the two records changes but \<^verbatim>\<open>updatedAt\<close>.
\<close>

theorem webhook_complete:
  assumes auth: "x_api_key req = Some (webhookApiKey cfg)"
    and st: "w_status (body req) = ''complete''"
    and v: "getVideo (w_permlink (body req)) db = Inr (Some v)"
    and j: "getJob (w_owner (body req)) (w_permlink (body req)) db = Inr (Some j)"
  shows "\<exists>db'. webhook cfg req now db =
            (\<lparr>statusCode = 200, json = [(''success'', JBool True),
                 (''message'', JStr ''Webhook processed successfully'')]\<rparr>, db') \<and>
          getVideo (w_permlink (body req)) db' =
            Inr (Some (v\<lparr>v_status := Published, v_encodingProgress := 100,
                         v_manifest_cid := w_manifest_cid (body req), v_updatedAt := now\<rparr>)) \<and>
          getJob (w_owner (body req)) (w_permlink (body req)) db' =
            Inr (Some (j\<lparr>j_status := Completed, j_webhookReceivedAt := Some now,
                         j_updatedAt := now\<rparr>))"
proof -
  let ?p = "w_permlink (body req)" and ?o = "w_owner (body req)"
  from v have c: "connected db" and fv: "find (\<lambda>v. v_permlink v = ?p) (videos db) = Some v"
    by (auto simp: getVideo_def split: if_splits)
  from j have fj: "find (\<lambda>j. job_key j = (?o, ?p)) (jobs db) = Some j"
    by (auto simp: getJob_def split: if_splits)
  obtain db1 where u1: "updateVideoStatus ?p Published
        [Set_v_manifest_cid (w_manifest_cid (body req)), Set_v_encodingProgress 100] now db = Inr db1"
    and c1: "connected db1" and j1: "jobs db1 = jobs db"
    and v1: "getVideo ?p db1 = Inr (map_option (fold set_video_field
        ([Set_v_status Published, Set_v_updatedAt now] @
         [Set_v_manifest_cid (w_manifest_cid (body req)), Set_v_encodingProgress 100]))
        (find (\<lambda>v. v_permlink v = ?p) (videos db)))"
    using getVideo_updateVideoStatus [OF c, of "[Set_v_manifest_cid (w_manifest_cid (body req)), Set_v_encodingProgress 100]" ?p Published now ?p]
    by auto
  obtain db2 where u2: "updateJobStatus ?o ?p Completed [Set_j_webhookReceivedAt (Some now)] now db1 = Inr db2"
    and c2: "connected db2" and v2: "videos db2 = videos db1"
    and j2: "getJob ?o ?p db2 = Inr (map_option (fold set_job_field
        ([Set_j_status Completed, Set_j_updatedAt now] @ [Set_j_webhookReceivedAt (Some now)]))
        (find (\<lambda>j. job_key j = (?o, ?p)) (jobs db1)))"
    using getJob_updateJobStatus [OF c1, of "[Set_j_webhookReceivedAt (Some now)]" ?o ?p Completed now ?o ?p]
    by (auto simp: job_key_def)
  have w: "webhook cfg req now db =
            (\<lparr>statusCode = 200, json = [(''success'', JBool True),
                 (''message'', JStr ''Webhook processed successfully'')]\<rparr>, db2)"
    using auth st u1 u2 by (simp add: webhook_def)
  have gv: "getVideo ?p db2 = getVideo ?p db1"
    using c1 c2 v2 by (simp add: getVideo_def)
  show ?thesis
    using w gv v1 fv j2 j1 fj by simp
qed

theorem webhook_complete_witness:
  "x_api_key complete_report = Some (webhookApiKey (scenario_cfg [])) \<and>
   w_status (body complete_report) = ''complete'' \<and>
   getVideo (w_permlink (body complete_report)) scenario_db = Inr (Some scenario_video) \<and>
   getJob (w_owner (body complete_report)) (w_permlink (body complete_report)) scenario_db
     = Inr (Some scenario_job) \<and>
   (\<exists>db'. getVideo (w_permlink (body complete_report)) db' =
            Inr (Some (scenario_video\<lparr>v_status := Published, v_encodingProgress := 100,
                         v_manifest_cid := w_manifest_cid (body complete_report),
                         v_updatedAt := 9\<rparr>)) \<and>
          getJob (w_owner (body complete_report)) (w_permlink (body complete_report)) db' =
            Inr (Some (scenario_job\<lparr>j_status := Completed, j_webhookReceivedAt := Some 9,
                         j_updatedAt := 9\<rparr>)) \<and>
          snd (webhook (scenario_cfg []) complete_report 9 scenario_db) = db')"
proof -
  have h1: "x_api_key complete_report = Some (webhookApiKey (scenario_cfg []))"
    by (simp add: complete_report_def scenario_cfg_def)
  have h2: "w_status (body complete_report) = ''complete''"
    by (simp add: complete_report_def)
  have h3: "getVideo (w_permlink (body complete_report)) scenario_db = Inr (Some scenario_video)"
    by (simp add: complete_report_def getVideo_def scenario_db_def scenario_video_def)
  have h4: "getJob (w_owner (body complete_report)) (w_permlink (body complete_report)) scenario_db
     = Inr (Some scenario_job)"
    by (simp add: complete_report_def getJob_def scenario_db_def scenario_job_def job_key_def)
  from webhook_complete [OF h1 h2 h3 h4, where now = 9] obtain db' where
    "webhook (scenario_cfg []) complete_report 9 scenario_db =
            (\<lparr>statusCode = 200, json = [(''success'', JBool True),
                 (''message'', JStr ''Webhook processed successfully'')]\<rparr>, db')"
    and "getVideo (w_permlink (body complete_report)) db' =
            Inr (Some (scenario_video\<lparr>v_status := Published, v_encodingProgress := 100,
                         v_manifest_cid := w_manifest_cid (body complete_report),
                         v_updatedAt := 9\<rparr>))"
    and "getJob (w_owner (body complete_report)) (w_permlink (body complete_report)) db' =
            Inr (Some (scenario_job\<lparr>j_status := Completed, j_webhookReceivedAt := Some 9,
                         j_updatedAt := 9\<rparr>))"
    by blast
  with h1 h2 h3 h4 show ?thesis by auto
qed

section \<open>The thumbnail endpoint\<close>

text \<open>
  Claim C9, as the code has it. The handler never looks at the status of the video it
  finds: a soft-deleted video gets its thumbnail like any other.
\<close>

theorem post_thumbnail_deleted_counterexample:
  "map v_status (videos deleted_db) = [Deleted] \<and>
   map v_thumbnail_url (videos deleted_db) = [None] \<and>
   map v_thumbnail_url
     (videos (snd (post_thumbnail ''ab12cd34'' (Some ''https://img.example.com/t.jpg'') 9 deleted_db)))
     = [Some ''https://img.example.com/t.jpg'']"
  by (simp add: post_thumbnail_def deleted_db_def scenario_video_def getVideo_def
        updateVideoStatus_def truthy_def)

text \<open>
  Claim C9, amended. For a video in any status, \<^verbatim>\<open>deleted\<close> included, a thumbnail
  request with a non-empty URL is answered 200; the first video with the permlink gets
  the new \<^verbatim>\<open>thumbnail_url\<close> and a fresh \<^verbatim>\<open>updatedAt\<close>, its status and every other
  field stay as they were, and no other record changes.
\<close>

theorem post_thumbnail_any_status:
  assumes "truthy thumbnail_url" and "getVideo permlink db = Inr (Some v)"
  shows "\<exists>db'. post_thumbnail permlink thumbnail_url now db =
            (\<lparr>statusCode = 200, json = [(''success'', JBool True),
                 (''thumbnail_url'', JStr (the thumbnail_url))]\<rparr>, db') \<and>
          db' = db\<lparr>videos := updateOne (\<lambda>x. v_permlink x = permlink)
                  (\<lambda>x. x\<lparr>v_thumbnail_url := thumbnail_url, v_updatedAt := now\<rparr>) (videos db)\<rparr> \<and>
          getVideo permlink db' =
            Inr (Some (v\<lparr>v_thumbnail_url := thumbnail_url, v_updatedAt := now\<rparr>))"
proof -
  let ?P = "\<lambda>x. v_permlink x = permlink"
  let ?f = "fold set_video_field ([Set_v_status (v_status v), Set_v_updatedAt now] @ [Set_v_thumbnail_url thumbnail_url])"
  from assms(2) have c: "connected db" and fv: "find ?P (videos db) = Some v"
    by (auto simp: getVideo_def split: if_splits)
  obtain db1 where u1: "updateVideoStatus permlink (v_status v) [Set_v_thumbnail_url thumbnail_url] now db = Inr db1"
    and vs1: "videos db1 = updateOne ?P ?f (videos db)"
    and g1: "getVideo permlink db1 = Inr (map_option ?f (find ?P (videos db)))"
    using getVideo_updateVideoStatus [OF c, of "[Set_v_thumbnail_url thumbnail_url]" permlink "v_status v" now permlink]
    by auto
  have "updateOne ?P ?f (videos db) =
        updateOne ?P (\<lambda>x. x\<lparr>v_thumbnail_url := thumbnail_url, v_updatedAt := now\<rparr>) (videos db)"
    by (rule updateOne_first [OF fv]) simp
  then have eq: "db1 = db\<lparr>videos := updateOne ?P
                  (\<lambda>x. x\<lparr>v_thumbnail_url := thumbnail_url, v_updatedAt := now\<rparr>) (videos db)\<rparr>"
    using u1 c by (simp add: updateVideoStatus_def)
  have r: "post_thumbnail permlink thumbnail_url now db =
            (\<lparr>statusCode = 200, json = [(''success'', JBool True),
                 (''thumbnail_url'', JStr (the thumbnail_url))]\<rparr>, db1)"
    using assms u1 by (simp add: post_thumbnail_def)
  have g: "getVideo permlink db1 = Inr (Some (v\<lparr>v_thumbnail_url := thumbnail_url, v_updatedAt := now\<rparr>))"
    using g1 fv by simp
  from r eq g show ?thesis by blast
qed

theorem post_thumbnail_any_status_witness:
  "truthy (Some ''https://img.example.com/t.jpg'') \<and>
   getVideo ''ab12cd34'' deleted_db = Inr (Some (scenario_video\<lparr>v_status := Deleted\<rparr>)) \<and>
   (\<exists>db'. post_thumbnail ''ab12cd34'' (Some ''https://img.example.com/t.jpg'') 9 deleted_db =
            (\<lparr>statusCode = 200, json = [(''success'', JBool True),
                 (''thumbnail_url'', JStr (the (Some ''https://img.example.com/t.jpg'')))]\<rparr>, db') \<and>
          getVideo ''ab12cd34'' db' =
            Inr (Some (scenario_video\<lparr>v_status := Deleted,
                   v_thumbnail_url := Some ''https://img.example.com/t.jpg'', v_updatedAt := 9\<rparr>)))"
proof -
  have t: "truthy (Some ''https://img.example.com/t.jpg'')"
    by (simp add: truthy_def)
  have g: "getVideo ''ab12cd34'' deleted_db = Inr (Some (scenario_video\<lparr>v_status := Deleted\<rparr>))"
    by (simp add: getVideo_def deleted_db_def scenario_video_def)
  from post_thumbnail_any_status [OF t g, where now = 9] t g
  show ?thesis by blast
qed

section \<open>The upload hook\<close>

text \<open>
  Claim C7, as the code has it. The hook does not read the video before it writes: a
  video that is already published is set back to processing, and for a permlink that no
  video has the hook and its status update return without any error.
\<close>

theorem markProcessing_counterexample:
  "map v_status (videos published_db) = [Published] \<and>
   fst (onUploadFinish pin_ok scenario_upload 9 published_db) = None \<and>
   map v_status (videos (snd (onUploadFinish pin_ok scenario_upload 9 published_db))) = [Processing] \<and>
   getVideo ''ab12cd34'' empty_db = Inr None \<and>
   fst (onUploadFinish pin_ok scenario_upload 9 empty_db) = None \<and>
   updateVideoStatus ''ab12cd34'' Processing
     [Set_v_size (Some 1000), Set_v_input_cid (Some ''Qm123''), Set_v_encodingProgress 0] 9 empty_db
     = Inr empty_db"
  by (simp add: onUploadFinish_def scenario_upload_def pin_ok_def published_db_def empty_db_def
        scenario_video_def getVideo_def updateVideoStatus_def createJob_def truthy_def job_key_def
        Let_def)

text \<open>
  Claim C7, amended. On a connected store the call by which the upload hook marks a
  video as processing, \<^verbatim>\<open>updateVideoStatus(permlink, 'processing', { size, input_cid,
  encodingProgress: 0 })\<close>, returns without error for every permlink. A video with that
  permlink, whatever its status, ends with status processing, the given \<^verbatim>\<open>input_cid\<close>,
  progress 0, the given size and a fresh \<^verbatim>\<open>updatedAt\<close>; when no video has the permlink
  the store is returned as it was. No job is touched.
\<close>

theorem markProcessing_any_status:
  assumes "connected db"
  shows "\<exists>db'. updateVideoStatus permlink Processing
                 [Set_v_size sz, Set_v_input_cid (Some input_cid), Set_v_encodingProgress 0]
                 now db = Inr db' \<and>
          jobs db' = jobs db \<and>
          (\<forall>v. getVideo permlink db = Inr (Some v) \<longrightarrow>
             getVideo permlink db' =
               Inr (Some (v\<lparr>v_status := Processing, v_input_cid := Some input_cid,
                     v_encodingProgress := 0, v_size := sz, v_updatedAt := now\<rparr>))) \<and>
          (getVideo permlink db = Inr None \<longrightarrow> db' = db)"
proof -
  let ?P = "\<lambda>x. v_permlink x = permlink"
  let ?extra = "[Set_v_size sz, Set_v_input_cid (Some input_cid), Set_v_encodingProgress 0]"
  let ?f = "fold set_video_field ([Set_v_status Processing, Set_v_updatedAt now] @ ?extra)"
  obtain db1 where u1: "updateVideoStatus permlink Processing ?extra now db = Inr db1"
    and j1: "jobs db1 = jobs db"
    and g1: "getVideo permlink db1 = Inr (map_option ?f (find ?P (videos db)))"
    using getVideo_updateVideoStatus [OF assms, of ?extra permlink Processing now permlink]
    by auto
  have a: "\<forall>v. getVideo permlink db = Inr (Some v) \<longrightarrow>
             getVideo permlink db1 =
               Inr (Some (v\<lparr>v_status := Processing, v_input_cid := Some input_cid,
                     v_encodingProgress := 0, v_size := sz, v_updatedAt := now\<rparr>))"
    using g1 assms by (auto simp: getVideo_def)
  have b: "getVideo permlink db = Inr None \<longrightarrow> db1 = db"
    using updateVideoStatus_unmatched [of db permlink Processing ?extra now] u1 assms
    by (auto simp: getVideo_def)
  from u1 j1 a b show ?thesis by blast
qed

theorem markProcessing_any_status_witness:
  "connected published_db \<and>
   getVideo ''ab12cd34'' published_db =
     Inr (Some (scenario_video\<lparr>v_status := Published, v_manifest_cid := Some ''Qm456'',
                 v_encodingProgress := 100\<rparr>)) \<and>
   (\<exists>db'. updateVideoStatus ''ab12cd34'' Processing
             [Set_v_size (Some 1000), Set_v_input_cid (Some ''Qm123''), Set_v_encodingProgress 0]
             9 published_db = Inr db' \<and>
      getVideo ''ab12cd34'' db' =
        Inr (Some (scenario_video\<lparr>v_status := Published, v_manifest_cid := Some ''Qm456'',
                 v_encodingProgress := 100\<rparr>
               \<lparr>v_status := Processing, v_input_cid := Some ''Qm123'', v_encodingProgress := 0,
                v_size := Some 1000, v_updatedAt := 9\<rparr>)))"
proof -
  have c: "connected published_db"
    by (simp add: published_db_def)
  have g: "getVideo ''ab12cd34'' published_db =
     Inr (Some (scenario_video\<lparr>v_status := Published, v_manifest_cid := Some ''Qm456'',
                 v_encodingProgress := 100\<rparr>))"
    by (simp add: getVideo_def published_db_def scenario_video_def)
  from markProcessing_any_status [OF c, where permlink = "''ab12cd34''" and sz = "Some 1000"
      and input_cid = "''Qm123''" and now = 9] c g
  show ?thesis by blast
qed

text \<open>
  The hook makes this call as soon as the pin has succeeded, and goes on to create the
  job from the store the call returns.
\<close>

lemma onUploadFinish_first_call:
  assumes "u_permlink upload = Some permlink" and "permlink \<noteq> []"
    and "u_owner upload = Some owner" and "owner \<noteq> []"
    and "u_storage upload = Some filePath" and "pinFile filePath = Inr input_cid"
    and "updateVideoStatus permlink Processing
           [Set_v_size (if u_size upload = Some 0 then None else u_size upload),
            Set_v_input_cid (Some input_cid), Set_v_encodingProgress 0] now db = Inr db1"
  shows "onUploadFinish pinFile upload now db =
           (case createJob \<lparr>j_owner = owner, j_permlink = permlink, j_status = Pending,
                   j_assignedWorker = None, j_encoderJobId = None, j_assignedAt = None,
                   j_attemptCount = 0, j_lastError = None, j_webhookReceivedAt = None,
                   j_createdAt = now, j_updatedAt = now\<rparr> db1 of
              Inl e \<Rightarrow> uploadFinishFailed permlink now db1
            | Inr db2 \<Rightarrow> (None, db2))"
  using assms by (simp add: onUploadFinish_def truthy_def)

section \<open>Round-robin selection\<close>





section \<open>Failed dispatch attempts\<close>

lemma updateOne_comp:
  assumes "\<And>x. p x \<Longrightarrow> p (g x)"
  shows "updateOne p f (updateOne p g xs) = updateOne p (\<lambda>x. f (g x)) xs"
  using assms by (induction xs) auto

lemma incrementJobAttempt_connected:
  assumes "connected db"
  shows "incrementJobAttempt (j_owner job) (j_permlink job) now db =
           Inr (db\<lparr>jobs := updateOne (\<lambda>j. job_key j = job_key job)
              (\<lambda>j. j\<lparr>j_attemptCount := j_attemptCount j + 1, j_updatedAt := now\<rparr>) (jobs db)\<rparr>)"
  using assms by (simp add: incrementJobAttempt_def job_key_def)

lemma updateJobStatus_connected:
  assumes "connected db"
  shows "updateJobStatus (j_owner job) (j_permlink job) st extra now db =
           Inr (db\<lparr>jobs := updateOne (\<lambda>j. job_key j = job_key job)
              (fold set_job_field ([Set_j_status st, Set_j_updatedAt now] @ extra)) (jobs db)\<rparr>)"
  using assms unfolding updateJobStatus_def by (simp add: job_key_def)

lemma handleDispatchError_retry:
  assumes "connected db" and "j_attemptCount job < 3"
  shows "handleDispatchError now job err db =
           (None, db\<lparr>jobs := updateOne (\<lambda>j. job_key j = job_key job)
              (\<lambda>j. j\<lparr>j_attemptCount := j_attemptCount j + 1, j_status := Pending,
                      j_lastError := Some (message err), j_updatedAt := now\<rparr>) (jobs db)\<rparr>)"
proof -
  let ?K = "\<lambda>j. job_key j = job_key job"
  define inc where "inc = (\<lambda>j::EncodingJob. j\<lparr>j_attemptCount := j_attemptCount j + 1, j_updatedAt := now\<rparr>)"
  define pend where "pend = fold set_job_field ([Set_j_status Pending, Set_j_updatedAt now] @
                 [Set_j_lastError (Some (message err))])"
  define db1 where "db1 = db\<lparr>jobs := updateOne ?K inc (jobs db)\<rparr>"
  have c1: "connected db1"
    using assms(1) by (simp add: db1_def)
  have s1: "incrementJobAttempt (j_owner job) (j_permlink job) now db = Inr db1"
    unfolding db1_def inc_def by (rule incrementJobAttempt_connected [OF assms(1)])
  have s2: "updateJobStatus (j_owner job) (j_permlink job) Pending
              [Set_j_lastError (Some (message err))] now db1 =
            Inr (db1\<lparr>jobs := updateOne ?K pend (jobs db1)\<rparr>)"
    unfolding pend_def by (rule updateJobStatus_connected [OF c1])
  have h: "handleDispatchError now job err db = (None, db1\<lparr>jobs := updateOne ?K pend (jobs db1)\<rparr>)"
  proof -
    from assms(2) have n: "\<not> 3 \<le> j_attemptCount job" by simp
    show ?thesis
      unfolding handleDispatchError_def by (simp only: s1 s2 sum.case n if_False)
  qed
  have "updateOne ?K pend (updateOne ?K inc (jobs db)) =
        updateOne ?K (\<lambda>x. pend (inc x)) (jobs db)"
    by (rule updateOne_comp) (simp add: job_key_def inc_def)
  moreover have "(\<lambda>x. pend (inc x)) =
      (\<lambda>j. j\<lparr>j_attemptCount := j_attemptCount j + 1, j_status := Pending,
                      j_lastError := Some (message err), j_updatedAt := now\<rparr>)"
    by (rule ext) (simp add: pend_def inc_def)
  ultimately have "updateOne ?K pend (updateOne ?K inc (jobs db)) =
        updateOne ?K (\<lambda>j. j\<lparr>j_attemptCount := j_attemptCount j + 1, j_status := Pending,
                      j_lastError := Some (message err), j_updatedAt := now\<rparr>) (jobs db)"
    by (simp only:)
  with h show ?thesis
    by (simp add: db1_def)
qed

lemma handleDispatchError_exhausted:
  assumes "connected db" and "3 \<le> j_attemptCount job"
  shows "handleDispatchError now job err db =
           (None, db\<lparr>jobs := updateOne (\<lambda>j. job_key j = job_key job)
              (\<lambda>j. j\<lparr>j_attemptCount := j_attemptCount j + 1, j_status := JobFailed,
                      j_lastError := Some (''Max attempts exceeded: '' @ message err),
                      j_updatedAt := now\<rparr>) (jobs db),
             videos := updateOne (\<lambda>v. v_permlink v = j_permlink job)
              (\<lambda>v. v\<lparr>v_status := VideoFailed, v_updatedAt := now\<rparr>) (videos db)\<rparr>)"
proof -
  let ?K = "\<lambda>j. job_key j = job_key job"
  let ?P = "\<lambda>v. v_permlink v = j_permlink job"
  let ?V = "\<lambda>v. v\<lparr>v_status := VideoFailed, v_updatedAt := now\<rparr>"
  define inc where "inc = (\<lambda>j::EncodingJob. j\<lparr>j_attemptCount := j_attemptCount j + 1, j_updatedAt := now\<rparr>)"
  define pend where "pend = fold set_job_field ([Set_j_status Pending, Set_j_updatedAt now] @
                 [Set_j_lastError (Some (message err))])"
  define failed where "failed = fold set_job_field ([Set_j_status JobFailed, Set_j_updatedAt now] @
                 [Set_j_lastError (Some (''Max attempts exceeded: '' @ message err))])"
  define db1 where "db1 = db\<lparr>jobs := updateOne ?K inc (jobs db)\<rparr>"
  define db2 where "db2 = db1\<lparr>jobs := updateOne ?K pend (jobs db1)\<rparr>"
  define db3 where "db3 = db2\<lparr>jobs := updateOne ?K failed (jobs db2)\<rparr>"
  have c1: "connected db1" and c2: "connected db2" and c3: "connected db3"
    using assms(1) by (simp_all add: db1_def db2_def db3_def)
  have s1: "incrementJobAttempt (j_owner job) (j_permlink job) now db = Inr db1"
    unfolding db1_def inc_def by (rule incrementJobAttempt_connected [OF assms(1)])
  have s2: "updateJobStatus (j_owner job) (j_permlink job) Pending
              [Set_j_lastError (Some (message err))] now db1 = Inr db2"
    unfolding db2_def pend_def by (rule updateJobStatus_connected [OF c1])
  have s3: "updateJobStatus (j_owner job) (j_permlink job) JobFailed
              [Set_j_lastError (Some (''Max attempts exceeded: '' @ message err))] now db2 = Inr db3"
    unfolding db3_def failed_def by (rule updateJobStatus_connected [OF c2])
  have s4: "updateVideoStatus (j_permlink job) VideoFailed [] now db3 =
              Inr (db3\<lparr>videos := updateOne ?P ?V (videos db3)\<rparr>)"
  proof -
    have "fold set_video_field ([Set_v_status VideoFailed, Set_v_updatedAt now] @ []) = ?V"
      by (rule ext) simp
    then show ?thesis
      using c3 unfolding updateVideoStatus_def by (simp only:) simp
  qed
  have h: "handleDispatchError now job err db = (None, db3\<lparr>videos := updateOne ?P ?V (videos db3)\<rparr>)"
    unfolding handleDispatchError_def by (simp only: s1 s2 s3 s4 sum.case assms(2) if_True)
  have 1: "updateOne ?K pend (updateOne ?K inc (jobs db)) =
        updateOne ?K (\<lambda>x. pend (inc x)) (jobs db)"
    by (rule updateOne_comp) (simp add: job_key_def inc_def)
  have 2: "updateOne ?K failed (updateOne ?K (\<lambda>x. pend (inc x)) (jobs db)) =
        updateOne ?K (\<lambda>x. failed (pend (inc x))) (jobs db)"
    by (rule updateOne_comp) (simp add: job_key_def inc_def pend_def)
  have 3: "(\<lambda>x. failed (pend (inc x))) =
      (\<lambda>j. j\<lparr>j_attemptCount := j_attemptCount j + 1, j_status := JobFailed,
                      j_lastError := Some (''Max attempts exceeded: '' @ message err),
                      j_updatedAt := now\<rparr>)"
    by (rule ext) (simp add: failed_def pend_def inc_def)
  have "jobs db3 = updateOne ?K (\<lambda>j. j\<lparr>j_attemptCount := j_attemptCount j + 1, j_status := JobFailed,
                      j_lastError := Some (''Max attempts exceeded: '' @ message err),
                      j_updatedAt := now\<rparr>) (jobs db)"
    unfolding 3 [symmetric] 2 [symmetric] 1 [symmetric]
    by (simp add: db3_def db2_def db1_def)
  moreover have "videos db3 = videos db"
    by (simp add: db3_def db2_def db1_def)
  moreover have "connected db3 = connected db"
    by (simp add: db3_def db2_def db1_def)
  ultimately have "db3\<lparr>videos := updateOne ?P ?V (videos db3)\<rparr> =
      db\<lparr>jobs := updateOne ?K (\<lambda>j. j\<lparr>j_attemptCount := j_attemptCount j + 1, j_status := JobFailed,
                      j_lastError := Some (''Max attempts exceeded: '' @ message err),
                      j_updatedAt := now\<rparr>) (jobs db),
          videos := updateOne ?P ?V (videos db)\<rparr>"
    by (cases db3, cases db) simp
  with h show ?thesis by simp
qed

lemmas scenario_defs = scenario_db_def scenario_video_def scenario_job_def scenario_cfg_def
  worker_def idle_cfg_def one_worker_def retried_job_def retried_db_def given_up_db_def
  new_JobDispatcher_def fetch_down_def

lemmas run_defs = processJobs_def getPendingJobs_def processJob_def dispatchJob_def
  getNextEncoder_def handleDispatchError_def incrementJobAttempt_def updateJobStatus_def
  updateVideoStatus_def getVideo_def getJob_def job_key_def Let_def

text \<open>
  Claim C3. When the dispatch of a fetched job throws and the job, as stored and as
  fetched, has an attempt count below 3, the loop iteration ends normally; the stored
  job is the fetched one with the count one higher, status pending, \<^verbatim>\<open>lastError\<close> the
  message of the thrown error and a fresh \<^verbatim>\<open>updatedAt\<close>; the video collection is exactly
  what it was.
\<close>

theorem dispatch_failure_below_budget:
  assumes fail: "dispatchJob cfg fetch now (j_owner job) (j_permlink job) (d, db) = (d', Inl err)"
    and stored: "getJob (j_owner job) (j_permlink job) db = Inr (Some job)"
    and budget: "j_attemptCount job < 3"
  shows "\<exists>db'. processJob cfg fetch now job (d, db) = (None, d', db') \<and>
           getJob (j_owner job) (j_permlink job) db' =
             Inr (Some (job\<lparr>j_attemptCount := j_attemptCount job + 1, j_status := Pending,
                            j_lastError := Some (message err), j_updatedAt := now\<rparr>)) \<and>
           videos db' = videos db"
proof -
  let ?F = "\<lambda>j. j\<lparr>j_attemptCount := j_attemptCount j + 1, j_status := Pending,
                      j_lastError := Some (message err), j_updatedAt := now\<rparr>"
  let ?db' = "db\<lparr>jobs := updateOne (\<lambda>j. job_key j = job_key job) ?F (jobs db)\<rparr>"
  from stored have c: "connected db"
    and f: "find (\<lambda>j. job_key j = job_key job) (jobs db) = Some job"
    by (auto simp: getJob_def job_key_def split: if_splits)
  have p: "processJob cfg fetch now job (d, db) = (None, d', ?db')"
    using fail handleDispatchError_retry [OF c budget, of now err]
    by (simp add: processJob_def)
  have kf: "\<And>x. job_key (?F x) = job_key x"
    by (simp add: job_key_def)
  have "find (\<lambda>j. job_key j = job_key job) (updateOne (\<lambda>j. job_key j = job_key job) ?F (jobs db))
          = map_option ?F (find (\<lambda>j. job_key j = job_key job) (jobs db))"
    using find_updateOne [where key = job_key and f = ?F and k = "job_key job" and k' = "job_key job", OF kf]
    by simp
  with f c have g: "getJob (j_owner job) (j_permlink job) ?db' = Inr (Some (?F job))"
    by (simp add: getJob_def job_key_def)
  from p g show ?thesis by auto
qed

theorem dispatch_failure_below_budget_witness:
  "dispatchJob one_worker fetch_down 30 (j_owner scenario_job) (j_permlink scenario_job)
       (new_JobDispatcher, scenario_db)
     = (\<lparr>currentEncoderIndex = 1\<rparr>, Inl (Error ''fetch failed'')) \<and>
   getJob (j_owner scenario_job) (j_permlink scenario_job) scenario_db = Inr (Some scenario_job) \<and>
   j_attemptCount scenario_job < 3 \<and>
   (\<exists>db'. processJob one_worker fetch_down 30 scenario_job (new_JobDispatcher, scenario_db)
            = (None, \<lparr>currentEncoderIndex = 1\<rparr>, db') \<and>
          getJob (j_owner scenario_job) (j_permlink scenario_job) db' =
             Inr (Some (scenario_job\<lparr>j_attemptCount := j_attemptCount scenario_job + 1,
                    j_status := Pending, j_lastError := Some (message (Error ''fetch failed'')),
                    j_updatedAt := 30\<rparr>)) \<and>
          videos db' = videos scenario_db)"
proof -
  have h1: "dispatchJob one_worker fetch_down 30 (j_owner scenario_job) (j_permlink scenario_job)
       (new_JobDispatcher, scenario_db)
     = (\<lparr>currentEncoderIndex = 1\<rparr>, Inl (Error ''fetch failed''))"
    by (simp add: run_defs scenario_defs)
  have h2: "getJob (j_owner scenario_job) (j_permlink scenario_job) scenario_db
              = Inr (Some scenario_job)"
    by (simp add: run_defs scenario_defs)
  have h3: "j_attemptCount scenario_job < 3"
    by (simp add: scenario_defs)
  from dispatch_failure_below_budget [OF h1 h2 h3] h1 h2 h3 show ?thesis by blast
qed

text \<open>
  Claim C1. When the dispatch of a fetched job throws and the job, as stored and as
  fetched, has an attempt count of 3 or more, the loop iteration ends normally; the
  stored job has status failed and the \<^verbatim>\<open>lastError\<close> "Max attempts exceeded: " followed
  by the message of the thrown error (its count is one higher), and a video with the
  job's permlink has status failed afterwards.
\<close>

theorem dispatch_failure_budget_exhausted:
  assumes fail: "dispatchJob cfg fetch now (j_owner job) (j_permlink job) (d, db) = (d', Inl err)"
    and stored: "getJob (j_owner job) (j_permlink job) db = Inr (Some job)"
    and budget: "3 \<le> j_attemptCount job"
  shows "\<exists>db'. processJob cfg fetch now job (d, db) = (None, d', db') \<and>
           getJob (j_owner job) (j_permlink job) db' =
             Inr (Some (job\<lparr>j_attemptCount := j_attemptCount job + 1, j_status := JobFailed,
                            j_lastError := Some (''Max attempts exceeded: '' @ message err),
                            j_updatedAt := now\<rparr>)) \<and>
           (\<forall>v. getVideo (j_permlink job) db = Inr (Some v) \<longrightarrow>
              getVideo (j_permlink job) db' =
                Inr (Some (v\<lparr>v_status := VideoFailed, v_updatedAt := now\<rparr>)))"
proof -
  let ?F = "\<lambda>j. j\<lparr>j_attemptCount := j_attemptCount j + 1, j_status := JobFailed,
                      j_lastError := Some (''Max attempts exceeded: '' @ message err),
                      j_updatedAt := now\<rparr>"
  let ?V = "\<lambda>v. v\<lparr>v_status := VideoFailed, v_updatedAt := now\<rparr>"
  let ?db' = "db\<lparr>jobs := updateOne (\<lambda>j. job_key j = job_key job) ?F (jobs db),
                 videos := updateOne (\<lambda>v. v_permlink v = j_permlink job) ?V (videos db)\<rparr>"
  from stored have c: "connected db"
    and f: "find (\<lambda>j. job_key j = job_key job) (jobs db) = Some job"
    by (auto simp: getJob_def job_key_def split: if_splits)
  have p: "processJob cfg fetch now job (d, db) = (None, d', ?db')"
    using fail handleDispatchError_exhausted [OF c budget, of now err]
    by (simp add: processJob_def)
  have kf: "\<And>x. job_key (?F x) = job_key x"
    by (simp add: job_key_def)
  have "find (\<lambda>j. job_key j = job_key job) (updateOne (\<lambda>j. job_key j = job_key job) ?F (jobs db))
          = map_option ?F (find (\<lambda>j. job_key j = job_key job) (jobs db))"
    using find_updateOne [where key = job_key and f = ?F and k = "job_key job" and k' = "job_key job", OF kf]
    by simp
  with f c have g: "getJob (j_owner job) (j_permlink job) ?db' = Inr (Some (?F job))"
    by (simp add: getJob_def job_key_def)
  have kv: "\<And>x. v_permlink (?V x) = v_permlink x"
    by simp
  have "find (\<lambda>v. v_permlink v = j_permlink job)
           (updateOne (\<lambda>v. v_permlink v = j_permlink job) ?V (videos db))
          = map_option ?V (find (\<lambda>v. v_permlink v = j_permlink job) (videos db))"
    using find_updateOne [where key = v_permlink and f = ?V and k = "j_permlink job" and k' = "j_permlink job", OF kv]
    by simp
  with c have gv: "getVideo (j_permlink job) ?db' =
      Inr (map_option ?V (find (\<lambda>v. v_permlink v = j_permlink job) (videos db)))"
    by (simp add: getVideo_def)
  have "\<forall>v. getVideo (j_permlink job) db = Inr (Some v) \<longrightarrow>
              getVideo (j_permlink job) ?db' = Inr (Some (?V v))"
    using gv c by (simp add: getVideo_def)
  with p g show ?thesis by blast
qed

theorem dispatch_failure_budget_exhausted_witness:
  "dispatchJob idle_cfg fetch_down 120 (j_owner (retried_job 3 90)) (j_permlink (retried_job 3 90))
       (new_JobDispatcher, retried_db 3 90)
     = (new_JobDispatcher, Inl (Error ''No enabled encoders available'')) \<and>
   getJob (j_owner (retried_job 3 90)) (j_permlink (retried_job 3 90)) (retried_db 3 90)
     = Inr (Some (retried_job 3 90)) \<and>
   3 \<le> j_attemptCount (retried_job 3 90) \<and>
   getVideo (j_permlink (retried_job 3 90)) (retried_db 3 90) = Inr (Some scenario_video) \<and>
   (\<exists>db'. processJob idle_cfg fetch_down 120 (retried_job 3 90) (new_JobDispatcher, retried_db 3 90)
            = (None, new_JobDispatcher, db') \<and>
          getJob (j_owner (retried_job 3 90)) (j_permlink (retried_job 3 90)) db' =
             Inr (Some ((retried_job 3 90)\<lparr>j_attemptCount := j_attemptCount (retried_job 3 90) + 1,
                    j_status := JobFailed,
                    j_lastError := Some (''Max attempts exceeded: '' @
                       message (Error ''No enabled encoders available'')),
                    j_updatedAt := 120\<rparr>)) \<and>
          getVideo (j_permlink (retried_job 3 90)) db' =
             Inr (Some (scenario_video\<lparr>v_status := VideoFailed, v_updatedAt := 120\<rparr>)))"
proof -
  have h1: "dispatchJob idle_cfg fetch_down 120 (j_owner (retried_job 3 90))
       (j_permlink (retried_job 3 90)) (new_JobDispatcher, retried_db 3 90)
     = (new_JobDispatcher, Inl (Error ''No enabled encoders available''))"
    by (simp add: run_defs scenario_defs)
  have h2: "getJob (j_owner (retried_job 3 90)) (j_permlink (retried_job 3 90)) (retried_db 3 90)
     = Inr (Some (retried_job 3 90))"
    by (simp add: run_defs scenario_defs)
  have h3: "3 \<le> j_attemptCount (retried_job 3 90)"
    by (simp add: scenario_defs)
  have h4: "getVideo (j_permlink (retried_job 3 90)) (retried_db 3 90) = Inr (Some scenario_video)"
    by (simp add: run_defs scenario_defs)
  from dispatch_failure_budget_exhausted [OF h1 h2 h3] h1 h2 h3 h4 show ?thesis by blast
qed

section \<open>No enabled encoder\<close>

lemma getNextEncoder_none_enabled:
  assumes "filter enabled (encoders cfg) = []"
  shows "getNextEncoder cfg d = Inl (Error ''No enabled encoders available'')"
  using assms by (simp add: getNextEncoder_def)

lemma dispatchJob_none_enabled:
  assumes "filter enabled (encoders cfg) = []"
  shows "\<exists>err. dispatchJob cfg fetch now owner permlink (d, db) = (d, Inl err)"
  using getNextEncoder_none_enabled [OF assms, of d]
  by (auto simp: dispatchJob_def Let_def split: sum.splits option.splits)

lemma dispatchJob_none_enabled_pinned:
  assumes "filter enabled (encoders cfg) = []"
    and "getVideo permlink db = Inr (Some v)" and "truthy (v_input_cid v)"
  shows "dispatchJob cfg fetch now owner permlink (d, db) =
           (d, Inl (Error ''No enabled encoders available''))"
  using getNextEncoder_none_enabled [OF assms(1), of d] assms(2,3)
  by (simp add: dispatchJob_def Let_def truthy_def)

lemma processJob_none_enabled:
  assumes nw: "filter enabled (encoders cfg) = []" and c: "connected db"
  shows "\<exists>f db'. processJob cfg fetch now job (d, db) = (None, d, db') \<and> connected db' \<and>
     jobs db' = updateOne (\<lambda>j. job_key j = job_key job) f (jobs db) \<and>
     (\<forall>x. job_key (f x) = job_key x \<and> j_attemptCount (f x) = j_attemptCount x + 1 \<and>
          j_status (f x) = (if 3 \<le> j_attemptCount job then JobFailed else Pending)) \<and>
     videos db' = (if 3 \<le> j_attemptCount job
                   then updateOne (\<lambda>v. v_permlink v = j_permlink job)
                          (\<lambda>v. v\<lparr>v_status := VideoFailed, v_updatedAt := now\<rparr>) (videos db)
                   else videos db)"
proof -
  obtain err where e: "dispatchJob cfg fetch now (j_owner job) (j_permlink job) (d, db) = (d, Inl err)"
    using dispatchJob_none_enabled [OF nw] by blast
  then have p: "processJob cfg fetch now job (d, db) =
                  (case handleDispatchError now job err db of (x, db') \<Rightarrow> (x, d, db'))"
    by (simp add: processJob_def)
  show ?thesis
  proof (cases "3 \<le> j_attemptCount job")
    case True
    show ?thesis
      using p handleDispatchError_exhausted [OF c True, of now err] True c
      by (intro exI [where x = "\<lambda>j. j\<lparr>j_attemptCount := j_attemptCount j + 1, j_status := JobFailed,
                      j_lastError := Some (''Max attempts exceeded: '' @ message err),
                      j_updatedAt := now\<rparr>"]) (simp add: job_key_def)
  next
    case False
    then have lt: "j_attemptCount job < 3" by simp
    show ?thesis
      using p handleDispatchError_retry [OF c lt, of now err] False c
      by (intro exI [where x = "\<lambda>j. j\<lparr>j_attemptCount := j_attemptCount j + 1, j_status := Pending,
                      j_lastError := Some (message err), j_updatedAt := now\<rparr>"])
         (simp add: job_key_def)
  qed
qed

lemma find_updateOne_failed:
  "find (\<lambda>v. v_permlink v = q)
      (updateOne (\<lambda>v. v_permlink v = p) (\<lambda>v. v\<lparr>v_status := VideoFailed, v_updatedAt := now\<rparr>) vs) =
   (if q = p then map_option (\<lambda>v. v\<lparr>v_status := VideoFailed, v_updatedAt := now\<rparr>)
                    (find (\<lambda>v. v_permlink v = q) vs)
    else find (\<lambda>v. v_permlink v = q) vs)"
  using find_updateOne [where key = v_permlink
      and f = "\<lambda>v. v\<lparr>v_status := VideoFailed, v_updatedAt := now\<rparr>" and k = q and k' = p and xs = vs]
  by simp

lemma processLoop_none_enabled:
  assumes nw: "filter enabled (encoders cfg) = []"
  shows "connected db \<Longrightarrow>
    \<exists>db'. processLoop cfg fetch now js (d, db) = (d, db') \<and> connected db' \<and>
      map job_key (jobs db') = map job_key (jobs db) \<and>
      (\<forall>k. k \<notin> job_key ` set js \<longrightarrow>
           find (\<lambda>j. job_key j = k) (jobs db') = find (\<lambda>j. job_key j = k) (jobs db)) \<and>
      (distinct (map job_key js) \<longrightarrow>
       (\<forall>j \<in> set js. find (\<lambda>x. job_key x = job_key j) (jobs db) = Some j \<longrightarrow>
          (\<exists>j'. find (\<lambda>x. job_key x = job_key j) (jobs db') = Some j' \<and>
                j_attemptCount j' = j_attemptCount j + 1 \<and>
                j_status j' = (if 3 \<le> j_attemptCount j then JobFailed else Pending)))) \<and>
      (\<forall>q v. find (\<lambda>v. v_permlink v = q) (videos db) = Some v \<longrightarrow>
          (\<exists>v'. find (\<lambda>v. v_permlink v = q) (videos db') = Some v' \<and>
                (v_status v = VideoFailed \<longrightarrow> v_status v' = VideoFailed) \<and>
                ((\<exists>j \<in> set js. j_permlink j = q \<and> 3 \<le> j_attemptCount j)
                    \<longrightarrow> v_status v' = VideoFailed)))"
proof (induction js arbitrary: db)
  case Nil
  then show ?case by simp
next
  case (Cons job rest)
  let ?K = "\<lambda>k j. job_key j = k"
  obtain f db1 where p: "processJob cfg fetch now job (d, db) = (None, d, db1)"
    and c1: "connected db1"
    and j1: "jobs db1 = updateOne (\<lambda>j. job_key j = job_key job) f (jobs db)"
    and f: "\<And>x. job_key (f x) = job_key x" "\<And>x. j_attemptCount (f x) = j_attemptCount x + 1"
           "\<And>x. j_status (f x) = (if 3 \<le> j_attemptCount job then JobFailed else Pending)"
    and v1: "videos db1 = (if 3 \<le> j_attemptCount job
                   then updateOne (\<lambda>v. v_permlink v = j_permlink job)
                          (\<lambda>v. v\<lparr>v_status := VideoFailed, v_updatedAt := now\<rparr>) (videos db)
                   else videos db)"
    using processJob_none_enabled [OF nw Cons.prems, of fetch now job d] by blast
  from Cons.IH [OF c1] obtain db2 where
    l: "processLoop cfg fetch now rest (d, db1) = (d, db2)" and c2: "connected db2"
    and k2: "map job_key (jobs db2) = map job_key (jobs db1)"
    and o2: "\<And>k. k \<notin> job_key ` set rest \<Longrightarrow>
           find (\<lambda>j. job_key j = k) (jobs db2) = find (\<lambda>j. job_key j = k) (jobs db1)"
    and s2: "\<And>j. distinct (map job_key rest) \<Longrightarrow> j \<in> set rest \<Longrightarrow>
          find (\<lambda>x. job_key x = job_key j) (jobs db1) = Some j \<Longrightarrow>
          (\<exists>j'. find (\<lambda>x. job_key x = job_key j) (jobs db2) = Some j' \<and>
                j_attemptCount j' = j_attemptCount j + 1 \<and>
                j_status j' = (if 3 \<le> j_attemptCount j then JobFailed else Pending))"
    and w2: "\<And>q v. find (\<lambda>v. v_permlink v = q) (videos db1) = Some v \<Longrightarrow>
          (\<exists>v'. find (\<lambda>v. v_permlink v = q) (videos db2) = Some v' \<and>
                (v_status v = VideoFailed \<longrightarrow> v_status v' = VideoFailed) \<and>
                ((\<exists>j \<in> set rest. j_permlink j = q \<and> 3 \<le> j_attemptCount j)
                    \<longrightarrow> v_status v' = VideoFailed))"
    by blast
  have fj: "\<And>k. find (\<lambda>j. job_key j = k) (jobs db1) =
              (if k = job_key job then map_option f (find (\<lambda>j. job_key j = k) (jobs db))
               else find (\<lambda>j. job_key j = k) (jobs db))"
    unfolding j1 using find_updateOne [where key = job_key and f = f, OF f(1)] by simp
  have r: "processLoop cfg fetch now (job # rest) (d, db) = (d, db2)"
    using p l by simp
  have a: "map job_key (jobs db2) = map job_key (jobs db)"
    using k2 j1 map_key_updateOne [where key = job_key and f = f, OF f(1)] by simp
  have b: "\<forall>k. k \<notin> job_key ` set (job # rest) \<longrightarrow>
           find (\<lambda>j. job_key j = k) (jobs db2) = find (\<lambda>j. job_key j = k) (jobs db)"
    using o2 fj by simp
  have cc: "distinct (map job_key (job # rest)) \<longrightarrow>
       (\<forall>j \<in> set (job # rest). find (\<lambda>x. job_key x = job_key j) (jobs db) = Some j \<longrightarrow>
          (\<exists>j'. find (\<lambda>x. job_key x = job_key j) (jobs db2) = Some j' \<and>
                j_attemptCount j' = j_attemptCount j + 1 \<and>
                j_status j' = (if 3 \<le> j_attemptCount j then JobFailed else Pending)))"
  proof (intro impI ballI)
    fix j
    assume dist: "distinct (map job_key (job # rest))" and mem: "j \<in> set (job # rest)"
      and st: "find (\<lambda>x. job_key x = job_key j) (jobs db) = Some j"
    show "\<exists>j'. find (\<lambda>x. job_key x = job_key j) (jobs db2) = Some j' \<and>
                j_attemptCount j' = j_attemptCount j + 1 \<and>
                j_status j' = (if 3 \<le> j_attemptCount j then JobFailed else Pending)"
    proof (cases "job_key j = job_key job")
      case True
      with dist mem have jj: "j = job" by (auto simp: image_iff)
      from dist have "job_key job \<notin> job_key ` set rest" by simp
      then have "find (\<lambda>x. job_key x = job_key job) (jobs db2) =
                 find (\<lambda>x. job_key x = job_key job) (jobs db1)"
        by (rule o2)
      also have "\<dots> = Some (f job)"
        using fj [of "job_key job"] st jj by simp
      finally show ?thesis
        using f jj by simp
    next
      case False
      with mem have mr: "j \<in> set rest" by auto
      from False fj [of "job_key j"] st
      have "find (\<lambda>x. job_key x = job_key j) (jobs db1) = Some j" by simp
      with s2 [OF _ mr] dist show ?thesis by simp
    qed
  qed
  have dd: "\<forall>q v. find (\<lambda>v. v_permlink v = q) (videos db) = Some v \<longrightarrow>
          (\<exists>v'. find (\<lambda>v. v_permlink v = q) (videos db2) = Some v' \<and>
                (v_status v = VideoFailed \<longrightarrow> v_status v' = VideoFailed) \<and>
                ((\<exists>j \<in> set (job # rest). j_permlink j = q \<and> 3 \<le> j_attemptCount j)
                    \<longrightarrow> v_status v' = VideoFailed))"
  proof (intro allI impI)
    fix q v
    assume fv: "find (\<lambda>v. v_permlink v = q) (videos db) = Some v"
    define v1 where "v1 = (if 3 \<le> j_attemptCount job \<and> q = j_permlink job
                           then v\<lparr>v_status := VideoFailed, v_updatedAt := now\<rparr> else v)"
    have f1: "find (\<lambda>v. v_permlink v = q) (videos db1) = Some v1"
      unfolding v1 v1_def using fv by (auto simp: find_updateOne_failed)
    from w2 [OF f1] obtain v' where
      f2: "find (\<lambda>v. v_permlink v = q) (videos db2) = Some v'"
      and keep: "v_status v1 = VideoFailed \<longrightarrow> v_status v' = VideoFailed"
      and rest: "(\<exists>j \<in> set rest. j_permlink j = q \<and> 3 \<le> j_attemptCount j)
                    \<longrightarrow> v_status v' = VideoFailed"
      by blast
    have "v_status v = VideoFailed \<longrightarrow> v_status v' = VideoFailed"
      using keep by (simp add: v1_def)
    moreover have "(\<exists>j \<in> set (job # rest). j_permlink j = q \<and> 3 \<le> j_attemptCount j)
                    \<longrightarrow> v_status v' = VideoFailed"
      using keep rest by (auto simp: v1_def)
    ultimately show "\<exists>v'. find (\<lambda>v. v_permlink v = q) (videos db2) = Some v' \<and>
                (v_status v = VideoFailed \<longrightarrow> v_status v' = VideoFailed) \<and>
                ((\<exists>j \<in> set (job # rest). j_permlink j = q \<and> 3 \<le> j_attemptCount j)
                    \<longrightarrow> v_status v' = VideoFailed)"
      using f2 by blast
  qed
  from r c2 a b cc dd show ?case by blast
qed

lemma find_distinct_key:
  "distinct (map key xs) \<Longrightarrow> x \<in> set xs \<Longrightarrow> find (\<lambda>y. key y = key x) xs = Some x"
  by (induction xs) (auto simp: image_iff)

lemma getPendingJobs_batch:
  assumes "getPendingJobs n db = Inr batch" and "distinct (map job_key (jobs db))"
  shows "connected db" and "set batch \<subseteq> set (jobs db)"
    and "\<forall>j \<in> set batch. j_status j = Pending" and "distinct (map job_key batch)"
proof -
  let ?s = "sort_key j_createdAt (filter (\<lambda>j. j_status j = Pending) (jobs db))"
  from assms(1) show c: "connected db"
    by (auto simp: getPendingJobs_def split: if_splits)
  with assms(1) have b: "batch = (if n = 0 then ?s else take n ?s)"
    by (auto simp: getPendingJobs_def Let_def)
  have sub: "set batch \<subseteq> set ?s"
    unfolding b by (auto dest: in_set_takeD)
  then show s: "set batch \<subseteq> set (jobs db)"
    by auto
  from sub show "\<forall>j \<in> set batch. j_status j = Pending"
    by auto
  from assms(2) have d: "distinct (jobs db)" and i: "inj_on job_key (set (jobs db))"
    by (simp_all add: distinct_map)
  from d have "distinct batch"
    unfolding b by simp
  moreover from i s have "inj_on job_key (set batch)"
    by (rule inj_on_subset)
  ultimately show "distinct (map job_key batch)"
    by (simp add: distinct_map)
qed

lemma processJobs_none_enabled:
  assumes nw: "filter enabled (encoders cfg) = []"
    and dist: "distinct (map job_key (jobs db))"
    and batch: "getPendingJobs 5 db = Inr batch"
    and polled: "(owner, permlink) \<in> job_key ` set batch"
  shows "\<exists>db' j j'. processJobs cfg fetch now (d, db) = (d, db') \<and> connected db' \<and>
     distinct (map job_key (jobs db')) \<and>
     getJob owner permlink db = Inr (Some j) \<and> j_status j = Pending \<and>
     getJob owner permlink db' = Inr (Some j') \<and>
     j_attemptCount j' = j_attemptCount j + 1 \<and>
     j_status j' = (if 3 \<le> j_attemptCount j then JobFailed else Pending) \<and>
     (\<forall>v. getVideo permlink db = Inr (Some v) \<longrightarrow>
        (\<exists>v'. getVideo permlink db' = Inr (Some v') \<and>
              (3 \<le> j_attemptCount j \<longrightarrow> v_status v' = VideoFailed)))"
proof -
  note b = getPendingJobs_batch [OF batch dist]
  from polled obtain j where jb: "j \<in> set batch" and jk: "job_key j = (owner, permlink)"
    by auto
  from jb b(2) have jm: "j \<in> set (jobs db)" by auto
  have st: "find (\<lambda>x. job_key x = job_key j) (jobs db) = Some j"
    using dist jm by (rule find_distinct_key)
  from jb b(3) have pj: "j_status j = Pending" by simp
  from jb have ne: "length batch \<noteq> 0" by auto
  obtain db' where l: "processLoop cfg fetch now batch (d, db) = (d, db')"
    and c': "connected db'"
    and k': "map job_key (jobs db') = map job_key (jobs db)"
    and s': "distinct (map job_key batch) \<longrightarrow>
       (\<forall>j \<in> set batch. find (\<lambda>x. job_key x = job_key j) (jobs db) = Some j \<longrightarrow>
          (\<exists>j'. find (\<lambda>x. job_key x = job_key j) (jobs db') = Some j' \<and>
                j_attemptCount j' = j_attemptCount j + 1 \<and>
                j_status j' = (if 3 \<le> j_attemptCount j then JobFailed else Pending)))"
    and w': "\<forall>q v. find (\<lambda>v. v_permlink v = q) (videos db) = Some v \<longrightarrow>
          (\<exists>v'. find (\<lambda>v. v_permlink v = q) (videos db') = Some v' \<and>
                (v_status v = VideoFailed \<longrightarrow> v_status v' = VideoFailed) \<and>
                ((\<exists>j \<in> set batch. j_permlink j = q \<and> 3 \<le> j_attemptCount j)
                    \<longrightarrow> v_status v' = VideoFailed))"
    using processLoop_none_enabled [OF nw b(1), of fetch now batch d] by blast
  from s' b(4) jb st obtain j' where
    f': "find (\<lambda>x. job_key x = job_key j) (jobs db') = Some j'"
    and a': "j_attemptCount j' = j_attemptCount j + 1"
    and t': "j_status j' = (if 3 \<le> j_attemptCount j then JobFailed else Pending)"
    by blast
  have r: "processJobs cfg fetch now (d, db) = (d, db')"
    using batch ne l by (simp add: processJobs_def)
  have d': "distinct (map job_key (jobs db'))"
    using k' dist by simp
  have g: "getJob owner permlink db = Inr (Some j)"
    using st jk b(1) by (simp add: getJob_def)
  have g': "getJob owner permlink db' = Inr (Some j')"
    using f' jk c' by (simp add: getJob_def)
  have jp: "j_permlink j = permlink"
    using jk by (simp add: job_key_def)
  have v: "\<forall>v. getVideo permlink db = Inr (Some v) \<longrightarrow>
        (\<exists>v'. getVideo permlink db' = Inr (Some v') \<and>
              (3 \<le> j_attemptCount j \<longrightarrow> v_status v' = VideoFailed))"
  proof (intro allI impI)
    fix v assume "getVideo permlink db = Inr (Some v)"
    then have "find (\<lambda>v. v_permlink v = permlink) (videos db) = Some v"
      using b(1) by (simp add: getVideo_def)
    with w' obtain v' where "find (\<lambda>v. v_permlink v = permlink) (videos db') = Some v'"
      and "(\<exists>j \<in> set batch. j_permlink j = permlink \<and> 3 \<le> j_attemptCount j)
                    \<longrightarrow> v_status v' = VideoFailed"
      by blast
    with jb jp c' show "\<exists>v'. getVideo permlink db' = Inr (Some v') \<and>
              (3 \<le> j_attemptCount j \<longrightarrow> v_status v' = VideoFailed)"
      by (auto simp: getVideo_def)
  qed
  from r c' d' g pj g' a' t' v show ?thesis by blast
qed

text \<open>
  Claim C4. With no enabled encoder, selection throws "No enabled encoders available"
  and every dispatch throws without reaching the encoder (with that very error once the
  video is pinned). The failure is handled like any other: a job that is in the fetched
  batch of four consecutive poll cycles has status failed and attempt count 4 after the
  fourth, and the video with its permlink has status failed. The stores between the
  cycles are the ones each cycle leaves; the unique index on (owner, permlink) is the
  distinctness of the job keys.
\<close>

theorem no_workers_four_polls:
  assumes nw: "filter enabled (encoders cfg) = []"
    and dist: "distinct (map job_key (jobs db0))"
    and video: "getVideo permlink db0 = Inr (Some v0)"
    and b1: "getPendingJobs 5 db0 = Inr batch1" "(owner, permlink) \<in> job_key ` set batch1"
    and p1: "processJobs cfg fetch1 t1 (d0, db0) = (d1, db1)"
    and b2: "getPendingJobs 5 db1 = Inr batch2" "(owner, permlink) \<in> job_key ` set batch2"
    and p2: "processJobs cfg fetch2 t2 (d1, db1) = (d2, db2)"
    and b3: "getPendingJobs 5 db2 = Inr batch3" "(owner, permlink) \<in> job_key ` set batch3"
    and p3: "processJobs cfg fetch3 t3 (d2, db2) = (d3, db3)"
    and b4: "getPendingJobs 5 db3 = Inr batch4" "(owner, permlink) \<in> job_key ` set batch4"
    and p4: "processJobs cfg fetch4 t4 (d3, db3) = (d4, db4)"
  shows "getNextEncoder cfg d0 = Inl (Error ''No enabled encoders available'') \<and>
         (\<exists>err. dispatchJob cfg fetch1 t1 owner permlink (d0, db0) = (d0, Inl err) \<and>
            (truthy (v_input_cid v0) \<longrightarrow> err = Error ''No enabled encoders available'')) \<and>
         (\<exists>j v. getJob owner permlink db4 = Inr (Some j) \<and> j_status j = JobFailed \<and>
                j_attemptCount j = 4 \<and>
                getVideo permlink db4 = Inr (Some v) \<and> v_status v = VideoFailed)"
proof -
  have A: "getNextEncoder cfg d0 = Inl (Error ''No enabled encoders available'')"
    by (rule getNextEncoder_none_enabled [OF nw])
  obtain err where e: "dispatchJob cfg fetch1 t1 owner permlink (d0, db0) = (d0, Inl err)"
    using dispatchJob_none_enabled [OF nw] by blast
  have "truthy (v_input_cid v0) \<longrightarrow> err = Error ''No enabled encoders available''"
    using dispatchJob_none_enabled_pinned [OF nw video, of fetch1 t1 owner d0] e by auto
  with e have B: "\<exists>err. dispatchJob cfg fetch1 t1 owner permlink (d0, db0) = (d0, Inl err) \<and>
            (truthy (v_input_cid v0) \<longrightarrow> err = Error ''No enabled encoders available'')"
    by blast
  from processJobs_none_enabled [OF nw dist b1, of fetch1 t1 d0] obtain x1 and j0 :: EncodingJob and j1 where
    r1: "processJobs cfg fetch1 t1 (d0, db0) = (d0, x1)"
    and c1: "connected x1" and d1: "distinct (map job_key (jobs x1))"
    and g1: "getJob owner permlink x1 = Inr (Some j1)"
    and a1: "j_attemptCount j1 = j_attemptCount j0 + 1"
    and v1: "\<forall>v. getVideo permlink db0 = Inr (Some v) \<longrightarrow>
        (\<exists>v'. getVideo permlink x1 = Inr (Some v') \<and>
              (3 \<le> j_attemptCount j0 \<longrightarrow> v_status v' = VideoFailed))"
    by (elim exE conjE) (rule that, assumption+)
  from r1 p1 have e1: "x1 = db1" "d1 = d0" by simp_all
  from v1 video obtain w1 where w1: "getVideo permlink db1 = Inr (Some w1)"
    unfolding e1 by blast
  from processJobs_none_enabled [OF nw d1 [unfolded e1] b2, of fetch2 t2 d1] obtain x2 i1 j2 where
    r2: "processJobs cfg fetch2 t2 (d1, db1) = (d1, x2)"
    and c2: "connected x2" and d2: "distinct (map job_key (jobs x2))"
    and h1: "getJob owner permlink db1 = Inr (Some i1)"
    and g2: "getJob owner permlink x2 = Inr (Some j2)"
    and a2: "j_attemptCount j2 = j_attemptCount i1 + 1"
    and v2: "\<forall>v. getVideo permlink db1 = Inr (Some v) \<longrightarrow>
        (\<exists>v'. getVideo permlink x2 = Inr (Some v') \<and>
              (3 \<le> j_attemptCount i1 \<longrightarrow> v_status v' = VideoFailed))"
    by (elim exE conjE) (rule that, assumption+)
  from r2 p2 have e2: "x2 = db2" "d2 = d1" by simp_all
  from h1 g1 have i1: "i1 = j1" unfolding e1 by simp
  from v2 w1 obtain w2 where w2: "getVideo permlink db2 = Inr (Some w2)"
    unfolding e2 by blast
  from processJobs_none_enabled [OF nw d2 [unfolded e2] b3, of fetch3 t3 d2] obtain x3 i2 j3 where
    r3: "processJobs cfg fetch3 t3 (d2, db2) = (d2, x3)"
    and c3: "connected x3" and d3: "distinct (map job_key (jobs x3))"
    and h2: "getJob owner permlink db2 = Inr (Some i2)"
    and g3: "getJob owner permlink x3 = Inr (Some j3)"
    and a3: "j_attemptCount j3 = j_attemptCount i2 + 1"
    and s3: "j_status j3 = (if 3 \<le> j_attemptCount i2 then JobFailed else Pending)"
    and v3: "\<forall>v. getVideo permlink db2 = Inr (Some v) \<longrightarrow>
        (\<exists>v'. getVideo permlink x3 = Inr (Some v') \<and>
              (3 \<le> j_attemptCount i2 \<longrightarrow> v_status v' = VideoFailed))"
    by (elim exE conjE) (rule that, assumption+)
  from r3 p3 have e3: "x3 = db3" "d3 = d2" by simp_all
  from h2 g2 have i2: "i2 = j2" unfolding e2 by simp
  from v3 w2 obtain w3 where w3: "getVideo permlink db3 = Inr (Some w3)"
    unfolding e3 by blast
  from processJobs_none_enabled [OF nw d3 [unfolded e3] b4, of fetch4 t4 d3] obtain x4 i3 j4 where
    r4: "processJobs cfg fetch4 t4 (d3, db3) = (d3, x4)"
    and h3: "getJob owner permlink db3 = Inr (Some i3)"
    and q3: "j_status i3 = Pending"
    and g4: "getJob owner permlink x4 = Inr (Some j4)"
    and a4: "j_attemptCount j4 = j_attemptCount i3 + 1"
    and s4: "j_status j4 = (if 3 \<le> j_attemptCount i3 then JobFailed else Pending)"
    and v4: "\<forall>v. getVideo permlink db3 = Inr (Some v) \<longrightarrow>
        (\<exists>v'. getVideo permlink x4 = Inr (Some v') \<and>
              (3 \<le> j_attemptCount i3 \<longrightarrow> v_status v' = VideoFailed))"
    by (elim exE conjE) (rule that, assumption+)
  from r4 p4 have e4: "x4 = db4" by simp
  from h3 g3 have i3: "i3 = j3" unfolding e3 by simp
  from q3 s3 have "j_attemptCount j2 < 3"
    unfolding i3 i2 by (auto split: if_splits)
  with a1 a2 a3 have n3: "j_attemptCount j3 = 3"
    unfolding i1 i2 by simp
  with a4 s4 have "j_attemptCount j4 = 4" and "j_status j4 = JobFailed"
    unfolding i3 by simp_all
  moreover from v4 w3 n3 obtain w4 where "getVideo permlink db4 = Inr (Some w4)"
    and "v_status w4 = VideoFailed"
    unfolding i3 e4 by auto
  ultimately have C: "\<exists>j v. getJob owner permlink db4 = Inr (Some j) \<and> j_status j = JobFailed \<and>
                j_attemptCount j = 4 \<and>
                getVideo permlink db4 = Inr (Some v) \<and> v_status v = VideoFailed"
    using g4 unfolding e4 by blast
  from A B C show ?thesis by blast
qed

lemma poll_1: "processJobs idle_cfg fetch_down 30 (new_JobDispatcher, scenario_db)
                 = (new_JobDispatcher, retried_db 1 30)"
  by (simp add: run_defs scenario_defs)

lemma poll_2: "processJobs idle_cfg fetch_down 60 (new_JobDispatcher, retried_db 1 30)
                 = (new_JobDispatcher, retried_db 2 60)"
  by (simp add: run_defs scenario_defs)

lemma poll_3: "processJobs idle_cfg fetch_down 90 (new_JobDispatcher, retried_db 2 60)
                 = (new_JobDispatcher, retried_db 3 90)"
  by (simp add: run_defs scenario_defs)

lemma poll_4: "processJobs idle_cfg fetch_down 120 (new_JobDispatcher, retried_db 3 90)
                 = (new_JobDispatcher, given_up_db)"
  by (simp add: run_defs scenario_defs)

lemma pending_0: "getPendingJobs 5 scenario_db = Inr [scenario_job]"
  by (simp add: run_defs scenario_defs)

lemma pending_k: "getPendingJobs 5 (retried_db k t) = Inr [retried_job k t]"
  by (simp add: run_defs scenario_defs)

lemma polled_0: "(''alice'', ''ab12cd34'') \<in> job_key ` set [scenario_job]"
  by (simp add: run_defs scenario_defs)

lemma polled_k: "(''alice'', ''ab12cd34'') \<in> job_key ` set [retried_job k t]"
  by (simp add: run_defs scenario_defs)

theorem no_workers_four_polls_witness:
  "filter enabled (encoders idle_cfg) = [] \<and>
   distinct (map job_key (jobs scenario_db)) \<and>
   getVideo ''ab12cd34'' scenario_db = Inr (Some scenario_video) \<and>
   getPendingJobs 5 scenario_db = Inr [scenario_job] \<and>
   (''alice'', ''ab12cd34'') \<in> job_key ` set [scenario_job] \<and>
   processJobs idle_cfg fetch_down 30 (new_JobDispatcher, scenario_db)
     = (new_JobDispatcher, retried_db 1 30) \<and>
   getPendingJobs 5 (retried_db 1 30) = Inr [retried_job 1 30] \<and>
   (''alice'', ''ab12cd34'') \<in> job_key ` set [retried_job 1 30] \<and>
   processJobs idle_cfg fetch_down 60 (new_JobDispatcher, retried_db 1 30)
     = (new_JobDispatcher, retried_db 2 60) \<and>
   getPendingJobs 5 (retried_db 2 60) = Inr [retried_job 2 60] \<and>
   (''alice'', ''ab12cd34'') \<in> job_key ` set [retried_job 2 60] \<and>
   processJobs idle_cfg fetch_down 90 (new_JobDispatcher, retried_db 2 60)
     = (new_JobDispatcher, retried_db 3 90) \<and>
   getPendingJobs 5 (retried_db 3 90) = Inr [retried_job 3 90] \<and>
   (''alice'', ''ab12cd34'') \<in> job_key ` set [retried_job 3 90] \<and>
   processJobs idle_cfg fetch_down 120 (new_JobDispatcher, retried_db 3 90)
     = (new_JobDispatcher, given_up_db) \<and>
   getNextEncoder idle_cfg new_JobDispatcher = Inl (Error ''No enabled encoders available'') \<and>
   (\<exists>j v. getJob ''alice'' ''ab12cd34'' given_up_db = Inr (Some j) \<and> j_status j = JobFailed \<and>
          j_attemptCount j = 4 \<and>
          getVideo ''ab12cd34'' given_up_db = Inr (Some v) \<and> v_status v = VideoFailed)"
proof -
  have nw: "filter enabled (encoders idle_cfg) = []"
    by (simp add: scenario_defs)
  have dist: "distinct (map job_key (jobs scenario_db))"
    by (simp add: scenario_defs)
  have video: "getVideo ''ab12cd34'' scenario_db = Inr (Some scenario_video)"
    by (simp add: run_defs scenario_defs)
  note hyps = nw dist video pending_0 polled_0 poll_1 pending_k [of 1 30] polled_k [of 1 30] poll_2
    pending_k [of 2 60] polled_k [of 2 60] poll_3 pending_k [of 3 90] polled_k [of 3 90] poll_4
  from no_workers_four_polls [OF hyps] hyps show ?thesis by blast
qed

section \<open>The dispatcher's cascade\<close>

text \<open>
  Claim C8, on the code. Marking a video failed resets the progress to 0 in the webhook
  and in the upload hook, but not in the dispatcher, whose call passes no additional
  data. In \<open>misreported_db\<close> the video is published with progress 100 and the job of
  alice is pending with three failed attempts. The next poll without an enabled encoder
  fails the job and marks the video failed with progress 100; on the same store the
  webhook's failure branch and the upload hook's \<^verbatim>\<open>catch\<close> leave progress 0.
\<close>

theorem dispatcher_cascade_keeps_progress:
  "map (\<lambda>v. (v_status v, v_encodingProgress v)) (videos misreported_db) = [(Published, 100)] \<and>
   map (\<lambda>j. (j_status j, j_attemptCount j)) (jobs misreported_db) = [(Pending, 3)] \<and>
   map (\<lambda>v. (v_status v, v_encodingProgress v))
     (videos (snd (processJobs idle_cfg fetch_down 120 (new_JobDispatcher, misreported_db))))
     = [(VideoFailed, 100)] \<and>
   map (\<lambda>j. (j_status j, j_attemptCount j))
     (jobs (snd (processJobs idle_cfg fetch_down 120 (new_JobDispatcher, misreported_db))))
     = [(JobFailed, 4)] \<and>
   map (\<lambda>v. (v_status v, v_encodingProgress v))
     (videos (snd (webhook idle_cfg failed_report 120 misreported_db)))
     = [(VideoFailed, 0)] \<and>
   map (\<lambda>v. (v_status v, v_encodingProgress v))
     (videos (snd (uploadFinishFailed ''ab12cd34'' 120 misreported_db)))
     = [(VideoFailed, 0)]"
proof -
  have m: "misreported_db = \<lparr>connected = True,
     videos = [scenario_video\<lparr>v_status := Published, v_manifest_cid := Some ''Qm456'',
                 v_encodingProgress := 100, v_updatedAt := 100\<rparr>],
     jobs = [retried_job 3 90]\<rparr>"
    by (simp add: misreported_db_def webhook_def stray_report_def run_defs scenario_defs)
  show ?thesis
    unfolding m
    by (simp add: webhook_def failed_report_def uploadFinishFailed_def truthy_def
          run_defs scenario_defs)
qed

end
